theory Spec2Isabelle
  imports Complex_Main
begin

section \<open>JavaScript numbers\<close>

text \<open>
  The simulator computes with JavaScript numbers. A number is modelled as either a real or
  \<open>NaN\<close>: finite doubles are idealised as reals (rounding and overflow to
  \<open>\<plusminus>Infinity\<close> are not modelled), and \<open>NaN\<close> is kept because the code tests for it
  (\<open>isNaN\<close>) and recovers from it. Arithmetic propagates \<open>NaN\<close>, every comparison with
  \<open>NaN\<close> is false, and a division by zero yields \<open>NaN\<close> (exact for \<open>0/0\<close>; for a nonzero
  dividend JavaScript yields an infinity, which this model folds into \<open>NaN\<close>). The section
  on double-precision arithmetic below embeds two functions once more with every operation
  rounded.
\<close>

datatype num = NaN | Num real

instantiation num :: "{plus, minus, times, uminus, inverse, ord}"
begin

fun plus_num :: "num \<Rightarrow> num \<Rightarrow> num" where
  "plus_num (Num a) (Num b) = Num (a + b)"
| "plus_num _ _ = NaN"

fun minus_num :: "num \<Rightarrow> num \<Rightarrow> num" where
  "minus_num (Num a) (Num b) = Num (a - b)"
| "minus_num _ _ = NaN"

fun times_num :: "num \<Rightarrow> num \<Rightarrow> num" where
  "times_num (Num a) (Num b) = Num (a * b)"
| "times_num _ _ = NaN"

fun uminus_num :: "num \<Rightarrow> num" where
  "uminus_num (Num a) = Num (- a)"
| "uminus_num NaN = NaN"

fun divide_num :: "num \<Rightarrow> num \<Rightarrow> num" where
  "divide_num (Num a) (Num b) = (if b = 0 then NaN else Num (a / b))"
| "divide_num _ _ = NaN"

fun inverse_num :: "num \<Rightarrow> num" where
  "inverse_num (Num a) = (if a = 0 then NaN else Num (1 / a))"
| "inverse_num NaN = NaN"

fun less_num :: "num \<Rightarrow> num \<Rightarrow> bool" where
  "less_num (Num a) (Num b) = (a < b)"
| "less_num _ _ = False"

fun less_eq_num :: "num \<Rightarrow> num \<Rightarrow> bool" where
  "less_eq_num (Num a) (Num b) = (a \<le> b)"
| "less_eq_num _ _ = False"

instance ..

end

fun isNaN :: "num \<Rightarrow> bool" where
  "isNaN NaN = True"
| "isNaN (Num a) = False"

text \<open>\<open>Math.max\<close> and \<open>Math.min\<close> return \<open>NaN\<close> as soon as one argument is \<open>NaN\<close>.\<close>

fun Math_max :: "num \<Rightarrow> num \<Rightarrow> num" where
  "Math_max (Num a) (Num b) = Num (max a b)"
| "Math_max _ _ = NaN"

fun Math_min :: "num \<Rightarrow> num \<Rightarrow> num" where
  "Math_min (Num a) (Num b) = Num (min a b)"
| "Math_min _ _ = NaN"

fun Math_sqrt :: "num \<Rightarrow> num" where
  "Math_sqrt (Num a) = (if a < 0 then NaN else Num (sqrt a))"
| "Math_sqrt NaN = NaN"

fun Math_sin :: "num \<Rightarrow> num" where
  "Math_sin (Num a) = Num (sin a)"
| "Math_sin NaN = NaN"

fun Math_cos :: "num \<Rightarrow> num" where
  "Math_cos (Num a) = Num (cos a)"
| "Math_cos NaN = NaN"

fun Math_acos :: "num \<Rightarrow> num" where
  "Math_acos (Num a) = (if a < - 1 \<or> 1 < a then NaN else Num (arccos a))"
| "Math_acos NaN = NaN"

text \<open>
  \<open>Math.pow(b, e)\<close> for a positive, non-integer exponent \<open>e\<close> (the code only uses
  \<open>e = 0.8\<close>): \<open>NaN\<close> on a negative base, \<open>0\<close> at \<open>0\<close>.
\<close>

fun Math_pow :: "num \<Rightarrow> real \<Rightarrow> num" where
  "Math_pow (Num a) e = (if a < 0 then NaN else Num (a powr e))"
| "Math_pow NaN e = NaN"

definition Math_PI :: num where
  "Math_PI = Num pi"

text \<open>A JavaScript object \<open>{x, y, z}\<close>.\<close>

record 'a vec =
  X :: 'a
  Y :: 'a
  Z :: 'a

definition vec0 :: "num vec" where
  "vec0 = \<lparr>X = Num 0, Y = Num 0, Z = Num 0\<rparr>"

section \<open>Tether system (physics/tether.js)\<close>

record tether_config =
  leftLineLength :: num
  rightLineLength :: num
  lineTension :: num
  lineElasticity :: num
  lineDrag :: num
  operatorPosition :: "num vec"
  leftInput :: num
  rightInput :: num
  overallLengthAdjustment :: num
  differentialLengthAdjustment :: num

definition tetherConfig :: tether_config where
  "tetherConfig = \<lparr>
     leftLineLength = Num 30, rightLineLength = Num 30, lineTension = Num 0,
     lineElasticity = Num 0.05, lineDrag = Num 0.02,
     operatorPosition = \<lparr>X = Num 0, Y = Num 0, Z = Num (- 10)\<rparr>,
     leftInput = Num 0.5, rightInput = Num 0.5,
     overallLengthAdjustment = Num 0, differentialLengthAdjustment = Num 0\<rparr>"

definition leftAttachPoint :: "num vec" where
  "leftAttachPoint = \<lparr>X = Num (- 0.5), Y = Num 0, Z = Num 0\<rparr>"

definition rightAttachPoint :: "num vec" where
  "rightAttachPoint = \<lparr>X = Num 0.5, Y = Num 0, Z = Num 0\<rparr>"

definition updateEffectiveLineLengths :: "tether_config \<Rightarrow> tether_config" where
  "updateEffectiveLineLengths c =
     (let baseLengthFactor = Num 1 + overallLengthAdjustment c * Num 0.5;
          baseLength = Num 30 * baseLengthFactor;
          diffFactor = differentialLengthAdjustment c * Num 0.2
      in c\<lparr>leftLineLength := baseLength * (Num 1 - diffFactor),
            rightLineLength := baseLength * (Num 1 + diffFactor)\<rparr>)"

definition calculateDistance :: "num vec \<Rightarrow> num vec \<Rightarrow> num" where
  "calculateDistance point1 point2 =
     (let dx = X point2 - X point1;
          dy = Y point2 - Y point1;
          dz = Z point2 - Z point1
      in Math_sqrt (dx * dx + dy * dy + dz * dz))"

definition calculateLineTension :: "tether_config \<Rightarrow> num \<Rightarrow> num \<Rightarrow> num \<Rightarrow> num" where
  "calculateLineTension c distance lineLength input =
     (let inputFactor = Num 1 - (input * Num 0.3);
          effectiveLength = lineLength * inputFactor;
          strain = Math_max (Num 0) (distance / effectiveLength - Num 1);
          tension = lineElasticity c * strain * (Num 1 + strain)
      in tension)"

definition setLeftInput :: "num \<Rightarrow> tether_config \<Rightarrow> tether_config" where
  "setLeftInput input c = c\<lparr>leftInput := Math_max (Num 0) (Math_min (Num 1) input)\<rparr>"

definition setRightInput :: "num \<Rightarrow> tether_config \<Rightarrow> tether_config" where
  "setRightInput input c = c\<lparr>rightInput := Math_max (Num 0) (Math_min (Num 1) input)\<rparr>"

definition setOverallLineLength :: "num \<Rightarrow> tether_config \<Rightarrow> tether_config" where
  "setOverallLineLength adjustment c =
     c\<lparr>overallLengthAdjustment := Math_max (Num (- 1)) (Math_min (Num 1) adjustment)\<rparr>"

definition setDifferentialLineLength :: "num \<Rightarrow> tether_config \<Rightarrow> tether_config" where
  "setDifferentialLineLength adjustment c =
     c\<lparr>differentialLengthAdjustment := Math_max (Num (- 1)) (Math_min (Num 1) adjustment)\<rparr>"


section \<open>Kite state (kite.js)\<close>

text \<open>
  \<open>kiteProperties\<close> with the fields the physics reads and writes. The two smoothing
  accumulators do not exist until the first force or torque is applied (\<open>None\<close> is the
  missing property). \<open>kiteModel\<close> is the module-level 3D model, of which only the position
  and the rotation are kept; it is \<open>None\<close> until the model has been loaded. Functions that
  write to the console return the messages they wrote together with the new state.
\<close>

record kite =
  mass :: num
  wingspan :: num
  area :: num
  dragCoefficient :: num
  position :: "num vec"
  velocity :: "num vec"
  rotation :: "num vec"
  angularVelocity :: "num vec"
  momentOfInertia :: "num vec"
  connectionPoint :: "num vec"
  smoothedAcceleration :: "num vec option"
  smoothedAngularAcceleration :: "num vec option"
  kiteModel :: "(num vec \<times> num vec) option"

definition kiteProperties :: kite where
  "kiteProperties = \<lparr>
     mass = Num 0.5, wingspan = Num 2, area = Num 1.2, dragCoefficient = Num 0.8,
     position = \<lparr>X = Num 0, Y = Num 2, Z = Num 0\<rparr>,
     velocity = vec0, rotation = vec0, angularVelocity = vec0,
     momentOfInertia = \<lparr>X = Num 0.1, Y = Num 0.2, Z = Num 0.15\<rparr>,
     connectionPoint = \<lparr>X = Num 0, Y = Num 0, Z = Num 0.5\<rparr>,
     smoothedAcceleration = None, smoothedAngularAcceleration = None,
     kiteModel = None\<rparr>"

definition getKiteProperties :: "kite \<Rightarrow> kite" where
  "getKiteProperties k = k"

definition resetKite :: "kite \<Rightarrow> string list \<times> kite" where
  "resetKite k =
     (let tetherLength = Num 30;
          elevationAngle = Math_PI / Num 6;
          pos = \<lparr>X = Num 0,
                 Y = Math_sin elevationAngle * tetherLength,
                 Z = Num (- 10) - Math_cos elevationAngle * tetherLength\<rparr>;
          rot = \<lparr>X = - (Math_PI / Num 2 - elevationAngle), Y = Num 0, Z = Num 0\<rparr>
      in ([''Resetting kite position''],
          k\<lparr>position := pos, velocity := vec0, rotation := rot, angularVelocity := vec0,
            kiteModel := (case kiteModel k of None \<Rightarrow> None | Some m \<Rightarrow> Some (pos, rot))\<rparr>))"

definition applyForce :: "num vec \<Rightarrow> kite \<Rightarrow> string list \<times> kite" where
  "applyForce force k =
     (if isNaN (X force) \<or> isNaN (Y force) \<or> isNaN (Z force)
      then ([''Invalid force values:''], k)
      else
        let alpha = Num 0.15;
            prev = (case smoothedAcceleration k of None \<Rightarrow> vec0 | Some a \<Rightarrow> a);
            rawAcceleration = \<lparr>X = X force / mass k, Y = Y force / mass k, Z = Z force / mass k\<rparr>;
            smoothed = \<lparr>X = alpha * X rawAcceleration + (Num 1 - alpha) * X prev,
                        Y = alpha * Y rawAcceleration + (Num 1 - alpha) * Y prev,
                        Z = alpha * Z rawAcceleration + (Num 1 - alpha) * Z prev\<rparr>;
            v = \<lparr>X = X (velocity k) + X smoothed,
                 Y = Y (velocity k) + Y smoothed,
                 Z = Z (velocity k) + Z smoothed\<rparr>;
            dampingFactor = Num 0.05;
            v = \<lparr>X = X v * (Num 1 - dampingFactor),
                 Y = Y v * (Num 1 - dampingFactor),
                 Z = Z v * (Num 1 - dampingFactor)\<rparr>;
            maxVelocity = Num 5;
            velocityMagSquared = X v * X v + Y v * Y v + Z v * Z v;
            v = (if velocityMagSquared > maxVelocity * maxVelocity
                 then let velocityMag = Math_sqrt velocityMagSquared;
                          scale = maxVelocity / velocityMag
                      in \<lparr>X = X v * scale, Y = Y v * scale, Z = Z v * scale\<rparr>
                 else v);
            p = \<lparr>X = X (position k) + X v,
                 Y = Y (position k) + Y v,
                 Z = Z (position k) + Z v\<rparr>;
            k' = k\<lparr>smoothedAcceleration := Some smoothed, velocity := v, position := p\<rparr>
        in if isNaN (X p) \<or> isNaN (Y p) \<or> isNaN (Z p)
           then (let (msgs, k'') = resetKite k' in (''Invalid position values:'' # msgs, k''))
           else ([], k'))"

definition applyTorque :: "num vec \<Rightarrow> kite \<Rightarrow> string list \<times> kite" where
  "applyTorque torque k =
     (if isNaN (X torque) \<or> isNaN (Y torque) \<or> isNaN (Z torque)
      then ([''Invalid torque values:''], k)
      else
        let alpha = Num 0.1;
            prev = (case smoothedAngularAcceleration k of None \<Rightarrow> vec0 | Some a \<Rightarrow> a);
            rawAngularAcceleration = \<lparr>X = X torque / X (momentOfInertia k),
                                      Y = Y torque / Y (momentOfInertia k),
                                      Z = Z torque / Z (momentOfInertia k)\<rparr>;
            smoothed = \<lparr>X = alpha * X rawAngularAcceleration + (Num 1 - alpha) * X prev,
                        Y = alpha * Y rawAngularAcceleration + (Num 1 - alpha) * Y prev,
                        Z = alpha * Z rawAngularAcceleration + (Num 1 - alpha) * Z prev\<rparr>;
            w = \<lparr>X = X (angularVelocity k) + X smoothed,
                 Y = Y (angularVelocity k) + Y smoothed,
                 Z = Z (angularVelocity k) + Z smoothed\<rparr>;
            angularDampingFactor = Num 0.08;
            w = \<lparr>X = X w * (Num 1 - angularDampingFactor),
                 Y = Y w * (Num 1 - angularDampingFactor),
                 Z = Z w * (Num 1 - angularDampingFactor)\<rparr>;
            maxAngularVelocity = Num 2;
            angularVelocityMagSquared = X w * X w + Y w * Y w + Z w * Z w;
            w = (if angularVelocityMagSquared > maxAngularVelocity * maxAngularVelocity
                 then let angularVelocityMag = Math_sqrt angularVelocityMagSquared;
                          scale = maxAngularVelocity / angularVelocityMag
                      in \<lparr>X = X w * scale, Y = Y w * scale, Z = Z w * scale\<rparr>
                 else w);
            r = \<lparr>X = X (rotation k) + X w,
                 Y = Y (rotation k) + Y w,
                 Z = Z (rotation k) + Z w\<rparr>;
            k' = k\<lparr>smoothedAngularAcceleration := Some smoothed, angularVelocity := w,
                   rotation := r\<rparr>
        in if isNaN (X r) \<or> isNaN (Y r) \<or> isNaN (Z r)
           then (let (msgs, k'') = resetKite k' in (''Invalid rotation values:'' # msgs, k''))
           else ([], k'))"


section \<open>Tether forces (physics/tether.js)\<close>

text \<open>
  \<open>calculateTetherForces\<close> returns the object
  \<open>{leftTension, rightTension, leftDistance, rightDistance}\<close>, here a tuple in that order.
\<close>

definition calculateTetherForces :: "tether_config \<Rightarrow> kite \<Rightarrow> num \<times> num \<times> num \<times> num" where
  "calculateTetherForces c k =
     (let kite = getKiteProperties k;
          bridleConnection = \<lparr>X = X (position kite) + X (connectionPoint kite),
                                Y = Y (position kite) + Y (connectionPoint kite),
                                Z = Z (position kite) + Z (connectionPoint kite)\<rparr>;
          leftAttach = \<lparr>X = X (position kite) + X leftAttachPoint,
                          Y = Y (position kite) + Y leftAttachPoint,
                          Z = Z (position kite) + Z leftAttachPoint\<rparr>;
          rightAttach = \<lparr>X = X (position kite) + X rightAttachPoint,
                           Y = Y (position kite) + Y rightAttachPoint,
                           Z = Z (position kite) + Z rightAttachPoint\<rparr>;
          operatorLeft = \<lparr>X = X (operatorPosition c) - Num 0.5,
                            Y = Y (operatorPosition c) + Num 1,
                            Z = Z (operatorPosition c)\<rparr>;
          operatorRight = \<lparr>X = X (operatorPosition c) + Num 0.5,
                             Y = Y (operatorPosition c) + Num 1,
                             Z = Z (operatorPosition c)\<rparr>;
          leftDistance = calculateDistance leftAttach operatorLeft;
          rightDistance = calculateDistance rightAttach operatorRight;
          groundProximityFactor =
            Math_max (Num 1)
              (Num 2 * (Num 1 - Math_min (Num 1) (Y bridleConnection / Num 5)));
          leftTension =
            calculateLineTension c leftDistance (leftLineLength c) (leftInput c)
              * groundProximityFactor;
          rightTension =
            calculateLineTension c rightDistance (rightLineLength c) (rightInput c)
              * groundProximityFactor
      in (leftTension, rightTension, leftDistance, rightDistance))"

definition scaleTension :: "num \<Rightarrow> num" where
  "scaleTension tension = Math_pow tension 0.8 * Num 5"

text \<open>
  \<open>getTetherForces\<close> is given in three parts, in the order of its body: the sum of the
  two line forces (\<open>totalForce\<close> as first computed), the limit to \<open>maxForce\<close>, and the
  function itself with its two validity checks and the damping. The source calls
  \<open>calculateTetherForces\<close> before it checks the kite position; the call has no effect
  besides its result, which is used in the sum of the line forces only. The
  \<open>try \<dots> catch\<close> around the body has nothing to catch: every property read exists.
\<close>

definition lineForces :: "tether_config \<Rightarrow> kite \<Rightarrow> num vec" where
  "lineForces c k =
     (let (leftTension, rightTension, leftDistance, rightDistance) = calculateTetherForces c k;
          kite = getKiteProperties k;
          bridleConnection = \<lparr>X = X (position kite) + X (connectionPoint kite),
                                Y = Y (position kite) + Y (connectionPoint kite),
                                Z = Z (position kite) + Z (connectionPoint kite)\<rparr>;
          operatorLeft = \<lparr>X = X (operatorPosition c) - Num 0.5,
                            Y = Y (operatorPosition c) + Num 1,
                            Z = Z (operatorPosition c)\<rparr>;
          operatorRight = \<lparr>X = X (operatorPosition c) + Num 0.5,
                             Y = Y (operatorPosition c) + Num 1,
                             Z = Z (operatorPosition c)\<rparr>;
          leftDir = \<lparr>X = X operatorLeft - X bridleConnection,
                       Y = Y operatorLeft - Y bridleConnection,
                       Z = Z operatorLeft - Z bridleConnection\<rparr>;
          rightDir = \<lparr>X = X operatorRight - X bridleConnection,
                        Y = Y operatorRight - Y bridleConnection,
                        Z = Z operatorRight - Z bridleConnection\<rparr>;
          leftMag = Math_sqrt (X leftDir * X leftDir + Y leftDir * Y leftDir
                                 + Z leftDir * Z leftDir);
          rightMag = Math_sqrt (X rightDir * X rightDir + Y rightDir * Y rightDir
                                  + Z rightDir * Z rightDir);
          leftDir = (if leftMag > Num 0.0001
                     then \<lparr>X = X leftDir / leftMag, Y = Y leftDir / leftMag,
                            Z = Z leftDir / leftMag\<rparr>
                     else \<lparr>X = Num 0, Y = Num 1, Z = Num 0\<rparr>);
          rightDir = (if rightMag > Num 0.0001
                      then \<lparr>X = X rightDir / rightMag, Y = Y rightDir / rightMag,
                             Z = Z rightDir / rightMag\<rparr>
                      else \<lparr>X = Num 0, Y = Num 1, Z = Num 0\<rparr>);
          leftForce = \<lparr>X = X leftDir * scaleTension leftTension,
                         Y = Y leftDir * scaleTension leftTension,
                         Z = Z leftDir * scaleTension leftTension\<rparr>;
          rightForce = \<lparr>X = X rightDir * scaleTension rightTension,
                          Y = Y rightDir * scaleTension rightTension,
                          Z = Z rightDir * scaleTension rightTension\<rparr>
      in \<lparr>X = X leftForce + X rightForce,
          Y = Y leftForce + Y rightForce,
          Z = Z leftForce + Z rightForce\<rparr>)"

definition limitForce :: "num vec \<Rightarrow> num vec" where
  "limitForce totalForce =
     (let maxForce = Num 20;
          forceMagSquared = X totalForce * X totalForce + Y totalForce * Y totalForce
                              + Z totalForce * Z totalForce
      in if forceMagSquared > maxForce * maxForce
         then let forceMag = Math_sqrt forceMagSquared;
                  scale = maxForce / forceMag
              in \<lparr>X = X totalForce * scale, Y = Y totalForce * scale,
                   Z = Z totalForce * scale\<rparr>
         else totalForce)"

text \<open>
  The line force is limited first; the damping term is subtracted from the limited
  force, and the difference is returned.
\<close>

definition getTetherForces :: "tether_config \<Rightarrow> kite \<Rightarrow> string list \<times> num vec" where
  "getTetherForces c k =
     (let kite = getKiteProperties k
      in if isNaN (X (position kite)) \<or> isNaN (Y (position kite)) \<or> isNaN (Z (position kite))
         then ([''Invalid kite position in getTetherForces:''], vec0)
         else
           let totalForce = lineForces c k
           in if isNaN (X totalForce) \<or> isNaN (Y totalForce) \<or> isNaN (Z totalForce)
              then ([''Invalid tether force calculated:''], vec0)
              else
                let totalForce = limitForce totalForce;
                    kiteVelocity = velocity kite;
                    dampingFactor = Num 0.8
                in ([], \<lparr>X = X totalForce - X kiteVelocity * dampingFactor,
                           Y = Y totalForce - Y kiteVelocity * dampingFactor,
                           Z = Z totalForce - Z kiteVelocity * dampingFactor\<rparr>))"

section \<open>Wind system (physics/wind.js)\<close>

record wind_state =
  baseSpeed :: num
  baseDirection :: "num vec"
  currentSpeed :: num
  currentDirection :: "num vec"
  gustStrength :: num
  gustFrequency :: num
  turbulence :: num
  userWindScale :: num

definition windState :: wind_state where
  "windState = \<lparr>
     baseSpeed = Num 5, baseDirection = \<lparr>X = Num 0, Y = Num 0, Z = Num 1\<rparr>,
     currentSpeed = Num 5, currentDirection = \<lparr>X = Num 0, Y = Num 0, Z = Num 1\<rparr>,
     gustStrength = Num 0.2, gustFrequency = Num 0.2, turbulence = Num 0.1,
     userWindScale = Num 1\<rparr>"

text \<open>
  \<open>updateWindVariation\<close> reads the clock once and draws four random numbers; the value
  \<open>now\<close> of \<open>performance.now()\<close> and the four results \<open>r0 \<dots> r3\<close> of \<open>Math.random()\<close>, in
  the order of the calls, are arguments of the model.
\<close>

definition updateWindVariation ::
    "num \<Rightarrow> num \<Rightarrow> num \<Rightarrow> num \<Rightarrow> num \<Rightarrow> num \<Rightarrow> wind_state \<Rightarrow> wind_state" where
  "updateWindVariation now r0 r1 r2 r3 deltaTime w =
     (let time = now / Num 1000;
          gustFactor = Math_sin (time * gustFrequency w) * gustStrength w;
          turbulenceFactor = (r0 - Num 0.5) * turbulence w;
          variationFactor = Num 1 + gustFactor + turbulenceFactor;
          speed = Math_max (Num 0.1) (baseSpeed w * variationFactor * userWindScale w);
          directionVariation = turbulence w * Num 0.1;
          d = \<lparr>X = X (baseDirection w) + (r1 - Num 0.5) * directionVariation,
               Y = Y (baseDirection w) + (r2 - Num 0.5) * directionVariation,
               Z = Z (baseDirection w) + (r3 - Num 0.5) * directionVariation\<rparr>;
          mag = Math_sqrt (X d * X d + Y d * Y d + Z d * Z d)
      in w\<lparr>currentSpeed := speed,
            currentDirection := \<lparr>X = X d / mag, Y = Y d / mag, Z = Z d / mag\<rparr>\<rparr>)"

definition setWindSpeed :: "num \<Rightarrow> wind_state \<Rightarrow> wind_state" where
  "setWindSpeed scale w =
     (let clampedScale = Math_max (Num 0) (Math_min (Num 1) scale)
      in w\<lparr>userWindScale := clampedScale\<rparr>)"

definition setWindDirection :: "num \<Rightarrow> num \<Rightarrow> num \<Rightarrow> wind_state \<Rightarrow> wind_state" where
  "setWindDirection x y z w =
     (let mag = Math_sqrt (x * x + y * y + z * z);
          d = (if mag > Num 0 then \<lparr>X = x / mag, Y = y / mag, Z = z / mag\<rparr>
               else \<lparr>X = x, Y = y, Z = z\<rparr>)
      in w\<lparr>baseDirection := d, currentDirection := d\<rparr>)"

definition getWindSpeed :: "wind_state \<Rightarrow> num" where
  "getWindSpeed w = currentSpeed w"

definition getWindDirection :: "wind_state \<Rightarrow> num vec" where
  "getWindDirection w = currentDirection w"

section \<open>Vector utilities (utils.js and the physics implementation guide)\<close>

definition Vector3_magnitude :: "num vec \<Rightarrow> num" where
  "Vector3_magnitude v = Math_sqrt (X v * X v + Y v * Y v + Z v * Z v)"

text \<open>\<open>Vector3.normalize\<close> divides whenever the magnitude is positive.\<close>

definition Vector3_normalize :: "num vec \<Rightarrow> num vec" where
  "Vector3_normalize v =
     (let mag = Vector3_magnitude v
      in if mag > Num 0 then \<lparr>X = X v / mag, Y = Y v / mag, Z = Z v / mag\<rparr> else v)"

text \<open>\<open>normalizeVector\<close> of the implementation guide returns zero below \<open>0.0001\<close>.\<close>

definition normalizeVector :: "num vec \<Rightarrow> num vec" where
  "normalizeVector v =
     (let mag = Math_sqrt (X v * X v + Y v * Y v + Z v * Z v)
      in if mag < Num 0.0001 then \<lparr>X = Num 0, Y = Num 0, Z = Num 0\<rparr>
         else \<lparr>X = X v / mag, Y = Y v / mag, Z = Z v / mag\<rparr>)"


section \<open>Physics engine (physics/engine.js)\<close>

record engine =
  timeScale :: num
  simulationStepsPerFrame :: num
  enableGravity :: bool
  enableWind :: bool
  enableDrag :: bool
  enableCollisions :: bool
  isRunning :: bool
  accumulator :: num

text \<open>The module-level configuration and state before \<open>initPhysics\<close>.\<close>

definition engineInit :: engine where
  "engineInit = \<lparr>
     timeScale = Num 1, simulationStepsPerFrame = Num 1, enableGravity = True,
     enableWind = True, enableDrag = True, enableCollisions = True,
     isRunning = False, accumulator = Num 0\<rparr>"

definition initPhysics :: "engine \<Rightarrow> string list \<times> engine" where
  "initPhysics e = ([''Initializing physics engine...''], e\<lparr>isRunning := True\<rparr>)"

definition setPhysicsRunning :: "bool \<Rightarrow> engine \<Rightarrow> engine" where
  "setPhysicsRunning shouldRun e = e\<lparr>isRunning := shouldRun\<rparr>"

definition GRAVITY :: num where
  "GRAVITY = Num 9.81"

definition AIR_DENSITY :: num where
  "AIR_DENSITY = Num 1.225"

subsection \<open>Aerodynamic forces\<close>

text \<open>
  The lift coefficient as \<open>calculateAerodynamicForces\<close> computes it from the angle of
  attack: the sine curve scaled to peak at \<open>optimalAoA\<close>, multiplied by the stall factor
  beyond \<open>1.3 \<times> optimalAoA\<close>.
\<close>

definition liftCoefficient :: "num \<Rightarrow> num" where
  "liftCoefficient angleOfAttack =
     (let optimalAoA = Num 0.26;
          maxLiftCoef = Num 1.2;
          liftCoef = maxLiftCoef
                       * Math_sin (Num 2 * angleOfAttack * (Math_PI / Num 4) / optimalAoA)
      in if angleOfAttack > optimalAoA * Num 1.3
         then let stallFactor =
                    Num 1 - Math_min (Num 1)
                              ((angleOfAttack - optimalAoA * Num 1.3)
                                 / (Math_PI / Num 2 - optimalAoA * Num 1.3))
              in liftCoef * stallFactor
         else liftCoef)"

text \<open>
  The result is \<open>(lift, drag, angleOfAttack)\<close>; the early return for a vanishing relative
  velocity has no \<open>angleOfAttack\<close> property.
\<close>

definition calculateAerodynamicForces ::
    "wind_state \<Rightarrow> kite \<Rightarrow> num vec \<times> num vec \<times> num option" where
  "calculateAerodynamicForces w kite =
     (let windDirection = getWindDirection w;
          windSpeed = getWindSpeed w;
          kiteVelocity = velocity kite;
          relativeVelocity = \<lparr>X = X windDirection * windSpeed - X kiteVelocity,
                                Y = Y windDirection * windSpeed - Y kiteVelocity,
                                Z = Z windDirection * windSpeed - Z kiteVelocity\<rparr>;
          velocityMagSquared = X relativeVelocity * X relativeVelocity
                                 + Y relativeVelocity * Y relativeVelocity
                                 + Z relativeVelocity * Z relativeVelocity;
          velocityMag = Math_sqrt velocityMagSquared
      in if velocityMag < Num 0.0001 then (vec0, vec0, None)
         else
           let relVelNorm = \<lparr>X = X relativeVelocity / velocityMag,
                               Y = Y relativeVelocity / velocityMag,
                               Z = Z relativeVelocity / velocityMag\<rparr>;
               kiteNormal = \<lparr>X = Math_sin (Y (rotation kite)) * Math_cos (X (rotation kite)),
                               Y = Math_sin (X (rotation kite)),
                               Z = Math_cos (Y (rotation kite)) * Math_cos (X (rotation kite))\<rparr>;
               dotProduct = X relVelNorm * X kiteNormal + Y relVelNorm * Y kiteNormal
                              + Z relVelNorm * Z kiteNormal;
               clampedDot = Math_max (Num (- 1)) (Math_min (Num 1) dotProduct);
               angleOfAttack = Math_acos clampedDot;
               liftCoef = liftCoefficient angleOfAttack;
               minDragCoef = Num 0.05;
               dragCoef = minDragCoef + dragCoefficient kite * Math_sin angleOfAttack;
               crossProduct = \<lparr>X = Y relVelNorm * Z kiteNormal - Z relVelNorm * Y kiteNormal,
                                 Y = Z relVelNorm * X kiteNormal - X relVelNorm * Z kiteNormal,
                                 Z = X relVelNorm * Y kiteNormal - Y relVelNorm * X kiteNormal\<rparr>;
               crossMag = Math_sqrt (X crossProduct * X crossProduct
                                       + Y crossProduct * Y crossProduct
                                       + Z crossProduct * Z crossProduct);
               liftDirection =
                 (if crossMag < Num 0.0001 then \<lparr>X = Num 0, Y = Num 1, Z = Num 0\<rparr>
                  else let crossNorm = \<lparr>X = X crossProduct / crossMag,
                                          Y = Y crossProduct / crossMag,
                                          Z = Z crossProduct / crossMag\<rparr>
                       in \<lparr>X = Y relVelNorm * Z crossNorm - Z relVelNorm * Y crossNorm,
                            Y = Z relVelNorm * X crossNorm - X relVelNorm * Z crossNorm,
                            Z = X relVelNorm * Y crossNorm - Y relVelNorm * X crossNorm\<rparr>);
               forceFactor = Num 0.5 * AIR_DENSITY * velocityMagSquared * area kite;
               liftMagnitude = forceFactor * liftCoef;
               dragMagnitude = forceFactor * dragCoef;
               liftForce = \<lparr>X = X liftDirection * liftMagnitude,
                              Y = Y liftDirection * liftMagnitude,
                              Z = Z liftDirection * liftMagnitude\<rparr>;
               dragForce = \<lparr>X = - X relVelNorm * dragMagnitude,
                              Y = - Y relVelNorm * dragMagnitude,
                              Z = - Z relVelNorm * dragMagnitude\<rparr>
           in (liftForce, dragForce, Some angleOfAttack))"

subsection \<open>Steering torque\<close>

text \<open>
  \<open>calculateAndApplyTorque\<close> does not take the two line tensions from the tether system:
  it calls \<open>getTetherForces\<close> and uses half of the x component of the net force for the
  left tension and for the right tension alike.
\<close>

definition steeringTensions :: "tether_config \<Rightarrow> kite \<Rightarrow> string list \<times> num \<times> num" where
  "steeringTensions c k =
     (let (msgs, tetherForceValues) = getTetherForces c k;
          leftTension = X tetherForceValues * Num 0.5;
          rightTension = X tetherForceValues * Num 0.5
      in (msgs, leftTension, rightTension))"

definition differentialTorque :: "num \<Rightarrow> num \<Rightarrow> num" where
  "differentialTorque leftTension rightTension =
     (let tensionDifference = rightTension - leftTension;
          differentialTorqueFactor = Num 0.5
      in tensionDifference * differentialTorqueFactor)"

text \<open>
  The torque handed to \<open>applyTorque\<close>. \<open>kite\<close> is the argument object (the copy
  \<open>stepPhysics\<close> took of the kite properties), \<open>k\<close> the module state read by
  \<open>getTetherForces\<close>. The argument \<open>tetherForces\<close> is not used by the code.
\<close>

definition steeringTorque ::
    "kite \<Rightarrow> num vec \<Rightarrow> tether_config \<Rightarrow> kite \<Rightarrow> string list \<times> num vec" where
  "steeringTorque kite tetherForces c k =
     (let kitePosition = position kite;
          bridleConnection = \<lparr>X = X kitePosition + X (connectionPoint kite),
                                Y = Y kitePosition + Y (connectionPoint kite),
                                Z = Z kitePosition + Z (connectionPoint kite)\<rparr>;
          operatorLeft = \<lparr>X = X (operatorPosition c) - Num 0.5,
                            Y = Y (operatorPosition c) + Num 1,
                            Z = Z (operatorPosition c)\<rparr>;
          operatorRight = \<lparr>X = X (operatorPosition c) + Num 0.5,
                             Y = Y (operatorPosition c) + Num 1,
                             Z = Z (operatorPosition c)\<rparr>;
          (msgs, leftTension, rightTension) = steeringTensions c k;
          leftDir = \<lparr>X = X operatorLeft - X bridleConnection,
                       Y = Y operatorLeft - Y bridleConnection,
                       Z = Z operatorLeft - Z bridleConnection\<rparr>;
          rightDir = \<lparr>X = X operatorRight - X bridleConnection,
                        Y = Y operatorRight - Y bridleConnection,
                        Z = Z operatorRight - Z bridleConnection\<rparr>;
          leftMag = Math_sqrt (X leftDir * X leftDir + Y leftDir * Y leftDir
                                 + Z leftDir * Z leftDir);
          rightMag = Math_sqrt (X rightDir * X rightDir + Y rightDir * Y rightDir
                                  + Z rightDir * Z rightDir);
          leftDir = (if leftMag > Num 0.0001
                     then \<lparr>X = X leftDir / leftMag, Y = Y leftDir / leftMag,
                            Z = Z leftDir / leftMag\<rparr>
                     else leftDir);
          rightDir = (if rightMag > Num 0.0001
                      then \<lparr>X = X rightDir / rightMag, Y = Y rightDir / rightMag,
                             Z = Z rightDir / rightMag\<rparr>
                      else rightDir);
          bridleArm = connectionPoint kite;
          leftForce = \<lparr>X = X leftDir * leftTension, Y = Y leftDir * leftTension,
                         Z = Z leftDir * leftTension\<rparr>;
          rightForce = \<lparr>X = X rightDir * rightTension, Y = Y rightDir * rightTension,
                          Z = Z rightDir * rightTension\<rparr>;
          totalForce = \<lparr>X = X leftForce + X rightForce,
                          Y = Y leftForce + Y rightForce,
                          Z = Z leftForce + Z rightForce\<rparr>;
          torque = \<lparr>X = Y bridleArm * Z totalForce - Z bridleArm * Y totalForce,
                      Y = Z bridleArm * X totalForce - X bridleArm * Z totalForce,
                      Z = X bridleArm * Y totalForce - Y bridleArm * X totalForce\<rparr>;
          torque = torque\<lparr>Y := Y torque + differentialTorque leftTension rightTension\<rparr>;
          stabilizingTorque = \<lparr>X = - Math_sin (X (rotation kite)) * Num 0.1,
                                 Y = - Math_sin (Y (rotation kite)) * Num 0.01,
                                 Z = - Math_sin (Z (rotation kite)) * Num 0.2\<rparr>;
          torque = \<lparr>X = X torque + X stabilizingTorque,
                      Y = Y torque + Y stabilizingTorque,
                      Z = Z torque + Z stabilizingTorque\<rparr>;
          dampingFactor = Num 0.15;
          dampingTorque = \<lparr>X = - X (angularVelocity kite) * dampingFactor,
                             Y = - Y (angularVelocity kite) * dampingFactor,
                             Z = - Z (angularVelocity kite) * dampingFactor\<rparr>;
          torque = \<lparr>X = X torque + X dampingTorque,
                      Y = Y torque + Y dampingTorque,
                      Z = Z torque + Z dampingTorque\<rparr>;
          torqueScaleFactor = Num 0.3
      in (msgs, \<lparr>X = X torque * torqueScaleFactor,
                  Y = Y torque * torqueScaleFactor,
                  Z = Z torque * torqueScaleFactor\<rparr>))"

definition calculateAndApplyTorque ::
    "kite \<Rightarrow> num vec \<Rightarrow> tether_config \<Rightarrow> kite \<Rightarrow> string list \<times> kite" where
  "calculateAndApplyTorque kite tetherForces c k =
     (let (msgs, torque) = steeringTorque kite tetherForces c k;
          (msgs', k') = applyTorque torque k
      in (msgs @ msgs', k'))"

subsection \<open>Fixed time step loop\<close>

text \<open>
  \<open>updatePhysics\<close>, the version with the bounded number of sub-steps. What one sub-step
  does to the simulated world does not influence the loop, so \<open>stepPhysics\<close> is an
  argument: a function of the step size on a world state \<open>'w\<close>. The result holds the
  console output, the number of sub-steps that were run, the engine state and the world.
\<close>

definition FIXED_TIME_STEP :: num where
  "FIXED_TIME_STEP = Num (1 / 120)"

definition maxSteps :: nat where
  "maxSteps = 10"

function physicsLoop ::
    "(num \<Rightarrow> 'w \<Rightarrow> 'w) \<Rightarrow> num \<Rightarrow> nat \<Rightarrow> 'w \<Rightarrow> num \<times> nat \<times> 'w" where
  "physicsLoop stepPhysics acc steps w =
     (if acc \<ge> FIXED_TIME_STEP \<and> steps < maxSteps
      then physicsLoop stepPhysics (acc - FIXED_TIME_STEP) (Suc steps)
             (stepPhysics FIXED_TIME_STEP w)
      else (acc, steps, w))"
  by pat_completeness auto
termination
  by (relation "measure (\<lambda>(stepPhysics, acc, steps, w). maxSteps - steps)") auto

declare physicsLoop.simps [simp del]

definition updatePhysics ::
    "(num \<Rightarrow> 'w \<Rightarrow> 'w) \<Rightarrow> num \<Rightarrow> engine \<times> 'w \<Rightarrow> string list \<times> nat \<times> engine \<times> 'w" where
  "updatePhysics stepPhysics deltaTime s =
     (let (e, w) = s
      in if \<not> isRunning e then ([], 0, e, w)
         else
           let maxDeltaTime = Num 0.1;
               clampedDeltaTime = Math_min deltaTime maxDeltaTime;
               scaledDeltaTime = clampedDeltaTime * timeScale e;
               acc = accumulator e + scaledDeltaTime;
               (acc, steps, w) = physicsLoop stepPhysics acc 0 w
           in if steps \<ge> maxSteps \<and> acc > FIXED_TIME_STEP
              then ([''Physics system overloaded, draining accumulator''], steps,
                    e\<lparr>accumulator := Num 0\<rparr>, w)
              else ([], steps, e\<lparr>accumulator := acc\<rparr>, w))"

section \<open>Double-precision arithmetic\<close>

text \<open>
  The definitions above compute on reals. Where a statement is about whether a result of
  the program is exact, or whether an order between two results is strict, the rounding of
  each operation matters, and the two functions concerned are embedded a second time with
  every rounding written out.

  \<open>fl x\<close> is the double nearest to the real \<open>x\<close>: round to nearest, ties to even, with a
  significand of 53 bits. The exponent is not bounded, so \<open>fl\<close> is the rounding of
  IEEE 754 binary64 for every result that is zero or whose magnitude lies in the normal
  range of doubles; overflow to \<open>\<plusminus>Infinity\<close> and gradual underflow are not modelled. A
  real argument of the functions of this section stands for a finite double, a decimal
  literal of the source such as \<open>0.3\<close> for the double \<open>fl 0.3\<close>; the literals \<open>0.5\<close>, \<open>1\<close>
  and \<open>30\<close> are doubles themselves.
\<close>

definition round_even :: "real \<Rightarrow> int" where
  "round_even y = (if y - of_int \<lfloor>y\<rfloor> = 1 / 2 \<and> even \<lfloor>y\<rfloor> then \<lfloor>y\<rfloor> else round y)"

definition fl :: "real \<Rightarrow> real" where
  "fl x = (if x = 0 then 0
           else let e = \<lfloor>log 2 \<bar>x\<bar>\<rfloor>
                in of_int (round_even (x / 2 powr of_int (e - 52))) * 2 powr of_int (e - 52))"


text \<open>
  \<open>updateEffectiveLineLengths\<close> on finite doubles, as a function of
  \<open>overallLengthAdjustment\<close> and \<open>differentialLengthAdjustment\<close>: \<open>baseLength_double\<close> is
  the local constant \<open>baseLength\<close>, and the pair returned holds the new \<open>leftLineLength\<close>
  and \<open>rightLineLength\<close>.
\<close>

definition baseLength_double :: "real \<Rightarrow> real" where
  "baseLength_double overall =
     (let baseLengthFactor = fl (1 + fl (overall * 0.5))
      in fl (30 * baseLengthFactor))"

definition updateEffectiveLineLengths_double :: "real \<Rightarrow> real \<Rightarrow> real \<times> real" where
  "updateEffectiveLineLengths_double overall differential =
     (let baseLength = baseLength_double overall;
          diffFactor = fl (differential * fl 0.2)
      in (fl (baseLength * fl (1 - diffFactor)), fl (baseLength * fl (1 + diffFactor))))"



section \<open>Line lengths and line tension\<close>

subsection \<open>Exact arithmetic\<close>

text \<open>
  In exact arithmetic, that is in the embedding on reals, the two line lengths set by
  \<open>updateEffectiveLineLengths\<close> add up to twice \<open>30 \<times> (1 + 0.5 \<times> overallLengthAdjustment)\<close>,
  and the tension of \<open>calculateLineTension\<close> grows strictly with the distance once the
  line is taut. Both facts belong to the formulas; the program rounds every operation,
  and the subsections below show what remains of them in double precision.
\<close>

lemma updateEffectiveLineLengths_exact_sum:
  assumes "overallLengthAdjustment c = Num a" and "differentialLengthAdjustment c = Num d"
  shows "leftLineLength (updateEffectiveLineLengths c)
           + rightLineLength (updateEffectiveLineLengths c)
         = Num (2 * (30 * (1 + 0.5 * a)))"
  using assms by (simp add: updateEffectiveLineLengths_def Let_def algebra_simps)

lemma calculateLineTension_Num:
  assumes "lineElasticity c = Num E" and "0 < L" and "0 \<le> i" and "i \<le> 1"
  shows "calculateLineTension c (Num d) (Num L) (Num i) =
           Num (E * max 0 (d / (L * (1 - i * 0.3)) - 1)
                  * (1 + max 0 (d / (L * (1 - i * 0.3)) - 1)))"
  using assms by (simp add: calculateLineTension_def Let_def)

lemma strain_term_strict_mono:
  fixes e :: real
  assumes "0 < e" and "e \<le> d1" and "d1 < d2" and "0 < E"
  shows "E * max 0 (d1 / e - 1) * (1 + max 0 (d1 / e - 1))
           < E * max 0 (d2 / e - 1) * (1 + max 0 (d2 / e - 1))"
proof -
  have s1: "0 \<le> d1 / e - 1" using assms by (simp add: field_simps)
  have s12: "d1 / e - 1 < d2 / e - 1" using assms by (simp add: divide_strict_right_mono)
  have m1: "max 0 (d1 / e - 1) = d1 / e - 1" using s1 by simp
  have m2: "max 0 (d2 / e - 1) = d2 / e - 1" using s1 s12 by simp
  have "0 < (d2 / e - d1 / e) * (1 + (d1 / e - 1) + (d2 / e - 1))"
    using s1 s12 by (intro mult_pos_pos) auto
  then have "(d1 / e - 1) * (1 + (d1 / e - 1)) < (d2 / e - 1) * (1 + (d2 / e - 1))"
    by (simp add: algebra_simps)
  then have "E * ((d1 / e - 1) * (1 + (d1 / e - 1))) < E * ((d2 / e - 1) * (1 + (d2 / e - 1)))"
    using \<open>0 < E\<close> by (rule mult_strict_left_mono)
  then show ?thesis unfolding m1 m2 by (simp only: mult.assoc)
qed

lemma calculateLineTension_exact_slack_taut:
  assumes "lineElasticity c = Num E" and "0 < E" and "0 < L" and "0 \<le> i" and "i \<le> 1"
    and "0 \<le> d1" and "d1 < d2"
  shows "\<exists>t1 t2. calculateLineTension c (Num d1) (Num L) (Num i) = Num t1
           \<and> calculateLineTension c (Num d2) (Num L) (Num i) = Num t2
           \<and> 0 \<le> t1 \<and> 0 \<le> t2
           \<and> (d1 \<le> L * (1 - i * 0.3) \<longrightarrow> t1 = 0)
           \<and> (d2 \<le> L * (1 - i * 0.3) \<longrightarrow> t2 = 0)
           \<and> (L * (1 - i * 0.3) \<le> d1 \<longrightarrow> t1 < t2)"
proof -
  let ?e = "L * (1 - i * 0.3)"
  let ?t = "\<lambda>d. E * max 0 (d / ?e - 1) * (1 + max 0 (d / ?e - 1))"
  have e: "0 < ?e" using assms by (intro mult_pos_pos) auto
  have nn: "0 \<le> ?t d" for d using \<open>0 < E\<close> by (intro mult_nonneg_nonneg) auto
  have slack: "?t d = 0" if "d \<le> ?e" for d
  proof -
    have "d / ?e \<le> 1" using that e by (simp add: field_simps)
    then have "max 0 (d / ?e - 1) = 0" by simp
    then show ?thesis by simp
  qed
  have mono: "?e \<le> d1 \<Longrightarrow> ?t d1 < ?t d2"
    using strain_term_strict_mono [OF e _ \<open>d1 < d2\<close> \<open>0 < E\<close>] by simp
  show ?thesis
    using calculateLineTension_Num [OF assms(1,3,4,5), of d1]
      calculateLineTension_Num [OF assms(1,3,4,5), of d2]
      nn [of d1] nn [of d2] slack [of d1] slack [of d2] mono
    by (intro exI [of _ "?t d1"] exI [of _ "?t d2"]) simp
qed

subsection \<open>Rounding to double precision\<close>

text \<open>
  Rounding to the nearest integer with ties to even: the error is at most one half, a
  real within less than one half of an integer rounds to it, and rounding is monotone.
\<close>

lemma round_even_err: "\<bar>of_int (round_even y) - y\<bar> \<le> 1 / 2"
proof (cases "y - of_int \<lfloor>y\<rfloor> = 1 / 2 \<and> even \<lfloor>y\<rfloor>")
  case True
  then show ?thesis by (simp add: round_even_def)
next
  case False
  then show ?thesis using of_int_round_abs_le [of y] by (simp add: round_even_def)
qed

lemma round_even_unique: "\<bar>y - of_int n\<bar> < 1 / 2 \<Longrightarrow> round_even y = n"
proof -
  assume h: "\<bar>y - of_int n\<bar> < 1 / 2"
  then have r: "round y = n" by (rule round_unique')
  show ?thesis
  proof (cases "y - of_int \<lfloor>y\<rfloor> = 1 / 2 \<and> even \<lfloor>y\<rfloor>")
    case True
    then have "y = of_int \<lfloor>y\<rfloor> + 1 / 2" by simp
    then have "\<bar>real_of_int \<lfloor>y\<rfloor> + 1 / 2 - real_of_int n\<bar> < 1 / 2" using h by linarith
    then have "\<bar>of_int (\<lfloor>y\<rfloor> - n) + (1 / 2 :: real)\<bar> < 1 / 2" by (simp add: algebra_simps)
    moreover have "\<bar>of_int (\<lfloor>y\<rfloor> - n) + (1 / 2 :: real)\<bar> \<ge> 1 / 2"
    proof (cases "\<lfloor>y\<rfloor> - n \<ge> 0")
      case True
      then have "(0 :: real) \<le> of_int (\<lfloor>y\<rfloor> - n)" by simp
      then show ?thesis by linarith
    next
      case False
      then have "\<lfloor>y\<rfloor> - n \<le> - 1" by simp
      then have "(of_int (\<lfloor>y\<rfloor> - n) :: real) \<le> - 1" by (metis of_int_le_iff of_int_minus of_int_1)
      then show ?thesis by linarith
    qed
    ultimately show ?thesis by linarith
  next
    case False
    then show ?thesis using r unfolding round_even_def by (simp only: if_False)
  qed
qed

lemma round_even_of_int [simp]: "round_even (of_int n) = n"
  by (rule round_even_unique) simp

lemma round_even_mono: "a \<le> b \<Longrightarrow> round_even a \<le> round_even b"
proof -
  assume ab: "a \<le> b"
  have lo: "\<lfloor>y\<rfloor> \<le> round_even y" for y
    using floor_le_round [of y] by (simp add: round_even_def)
  have hi: "round_even y \<le> \<lfloor>y\<rfloor> + 1" for y
  proof -
    have "round y \<le> \<lfloor>y\<rfloor> + 1" unfolding round_def by (simp add: floor_le_iff) linarith
    then show ?thesis by (simp add: round_even_def)
  qed
  show ?thesis
  proof (cases "\<lfloor>a\<rfloor> < \<lfloor>b\<rfloor>")
    case True
    then have "round_even a \<le> \<lfloor>b\<rfloor>" using hi [of a] by linarith
    then show ?thesis using lo [of b] by linarith
  next
    case False
    then have fe: "\<lfloor>a\<rfloor> = \<lfloor>b\<rfloor>" using floor_mono [OF ab] by linarith
    show ?thesis
    proof (cases "b - of_int \<lfloor>b\<rfloor> = 1 / 2 \<and> even \<lfloor>b\<rfloor>")
      case tb: True
      then have "a - of_int \<lfloor>a\<rfloor> \<le> 1 / 2" using ab fe by simp
      then have "round_even a = \<lfloor>a\<rfloor>"
      proof (cases "a - of_int \<lfloor>a\<rfloor> = 1 / 2")
        case True
        then show ?thesis using tb fe by (simp add: round_even_def)
      next
        case False
        with \<open>a - of_int \<lfloor>a\<rfloor> \<le> 1 / 2\<close> have "a - of_int \<lfloor>a\<rfloor> < 1 / 2" by simp
        then have "round a = \<lfloor>a\<rfloor>" unfolding round_def by (intro floor_unique) linarith+
        then show ?thesis using False by (simp add: round_even_def)
      qed
      then show ?thesis using lo [of b] fe by simp
    next
      case False
      then have "round_even b = round b" unfolding round_even_def by (simp only: if_False)
      moreover have "round_even a \<le> round a"
        using floor_le_round [of a] by (simp add: round_even_def)
      ultimately show ?thesis using round_mono [OF ab] by linarith
    qed
  qed
qed

text \<open>
  Rounding to a double: the relative error is at most \<open>1 / 2 ^ 53\<close>, and \<open>fl x\<close> is computed
  from the integer nearest to \<open>x \<times> 2 ^ j\<close> once this product lies between \<open>2 ^ 52\<close> and
  \<open>2 ^ 53\<close>.
\<close>

lemma fl_0 [simp]: "fl 0 = 0"
  by (simp add: fl_def)

lemma log2_floor_bounds:
  assumes "0 < x"
  shows "2 powr of_int \<lfloor>log 2 x\<rfloor> \<le> x" and "x < 2 powr of_int (\<lfloor>log 2 x\<rfloor> + 1)"
  using floor_log_eq_powr_iff [of x 2 "\<lfloor>log 2 x\<rfloor>"] assms by simp_all

lemma fl_unfold:
  assumes "x \<noteq> 0"
  shows "fl x = of_int (round_even (x / 2 powr (of_int \<lfloor>log 2 \<bar>x\<bar>\<rfloor> - 52)))
                  * 2 powr (of_int \<lfloor>log 2 \<bar>x\<bar>\<rfloor> - 52)"
  using assms by (simp add: fl_def Let_def)

lemma ulp_eq: "(2 :: real) powr (of_int e - 52) = 2 powr of_int e / 2 ^ 52"
proof -
  have "(2 :: real) powr (of_int e - 52) = 2 powr of_int e / 2 powr 52" by (rule powr_diff)
  also have "(2 :: real) powr 52 = 2 ^ 52" by simp
  finally show ?thesis .
qed

lemma fl_rel_err: "\<bar>fl x - x\<bar> \<le> \<bar>x\<bar> / 2 ^ 53"
proof (cases "x = 0")
  case True
  then show ?thesis by simp
next
  case False
  define e where "e = \<lfloor>log 2 \<bar>x\<bar>\<rfloor>"
  define u where "u = (2 :: real) powr (of_int e - 52)"
  define R where "R = round_even (x / u)"
  have u: "0 < u" by (simp add: u_def)
  have f: "fl x = of_int R * u" using fl_unfold [OF False] by (simp add: R_def u_def e_def)
  have "fl x - x = (of_int R - x / u) * u" using u by (simp add: f field_simps)
  then have "\<bar>fl x - x\<bar> = \<bar>of_int R - x / u\<bar> * u" using u by (simp add: abs_mult)
  also have "\<dots> \<le> 1 / 2 * u"
    using round_even_err [of "x / u"] u unfolding R_def by (intro mult_right_mono) simp_all
  finally have a: "\<bar>fl x - x\<bar> \<le> u / 2" by simp
  have "2 powr of_int e \<le> \<bar>x\<bar>" unfolding e_def using False by (intro log2_floor_bounds) simp
  then have "u \<le> \<bar>x\<bar> / 2 ^ 52" unfolding u_def ulp_eq by (simp add: divide_right_mono)
  then have "u / 2 \<le> \<bar>x\<bar> / 2 ^ 53" by simp
  with a show ?thesis by linarith
qed

lemma fl_abs_err: "\<bar>x\<bar> \<le> B \<Longrightarrow> \<bar>fl x - x\<bar> \<le> B / 2 ^ 53"
proof -
  assume "\<bar>x\<bar> \<le> B"
  then have "\<bar>x\<bar> / 2 ^ 53 \<le> B / 2 ^ 53" by (simp add: divide_right_mono)
  with fl_rel_err [of x] show ?thesis by linarith
qed


lemma fl_lower:
  assumes "0 \<le> x"
  shows "x - x / 2 ^ 53 \<le> fl x"
proof -
  have a: "\<bar>fl x - x\<bar> \<le> \<bar>x\<bar> / 2 ^ 53" by (rule fl_rel_err)
  have b: "\<bar>x\<bar> = x" using assms by simp
  show ?thesis using a unfolding b by linarith
qed

lemma fl_eval_round:
  assumes "2 ^ 52 \<le> x * 2 ^ j" and "x * 2 ^ j < 2 ^ 53"
  shows "fl x = of_int (round_even (x * 2 ^ j)) / 2 ^ j"
proof -
  have x: "0 < x"
  proof -
    have "(0 :: real) < 2 ^ 52" by simp
    then have "0 < x * 2 ^ j" using assms(1) by linarith
    then show ?thesis by (simp add: zero_less_mult_iff)
  qed
  have p: "(2 :: real) powr of_int (52 - int j) = 2 ^ 52 / 2 ^ j"
  proof -
    have "(2 :: real) powr of_int (52 - int j) = 2 powr (52 - real j)" by simp
    also have "\<dots> = 2 powr 52 / 2 powr real j" by (rule powr_diff)
    also have "\<dots> = 2 ^ 52 / 2 ^ j" by (simp add: powr_realpow)
    finally show ?thesis .
  qed
  have p1: "(2 :: real) powr of_int (52 - int j + 1) = 2 ^ 53 / 2 ^ j"
  proof -
    have "(2 :: real) powr of_int (52 - int j + 1) = 2 powr (53 - real j)" by simp
    also have "\<dots> = 2 powr 53 / 2 powr real j" by (rule powr_diff)
    also have "\<dots> = 2 ^ 53 / 2 ^ j" by (simp add: powr_realpow)
    finally show ?thesis .
  qed
  have "2 powr of_int (52 - int j) \<le> x \<and> x < 2 powr of_int (52 - int j + 1)"
    unfolding p p1 using assms(1,2) by (simp add: field_simps)
  then have e: "\<lfloor>log 2 x\<rfloor> = 52 - int j"
    using floor_log_eq_powr_iff [of x 2 "52 - int j"] x by simp
  have "real_of_int \<lfloor>log 2 \<bar>x\<bar>\<rfloor> - 52 = - real j" using e x by simp
  then have "(2 :: real) powr (of_int \<lfloor>log 2 \<bar>x\<bar>\<rfloor> - 52) = 2 powr (- real j)" by simp
  also have "\<dots> = 1 / 2 ^ j" by (simp add: powr_minus powr_realpow field_simps)
  finally have u: "(2 :: real) powr (of_int \<lfloor>log 2 \<bar>x\<bar>\<rfloor> - 52) = 1 / 2 ^ j" .
  have "fl x = of_int (round_even (x / (1 / 2 ^ j))) * (1 / 2 ^ j)"
    using fl_unfold [of x] x unfolding u by simp
  then show ?thesis by simp
qed

lemma round_even_tie: "even n \<Longrightarrow> round_even (of_int n + 1 / 2) = n"
proof -
  assume n: "even n"
  have "\<lfloor>of_int n + (1 / 2 :: real)\<rfloor> = n" by (rule floor_unique) simp_all
  then show ?thesis using n by (simp add: round_even_def)
qed

lemma fl_eval_div:
  assumes "2 ^ 52 \<le> x * 2 ^ j" and "x * 2 ^ j < 2 ^ 53" and "\<bar>x * 2 ^ j - of_int n\<bar> < 1 / 2"
  shows "fl x = of_int n / 2 ^ j"
  using fl_eval_round [OF assms(1,2)] round_even_unique [OF assms(3)] by simp

lemma fl_eval_tie_even:
  assumes "2 ^ 52 \<le> x * 2 ^ j" and "x * 2 ^ j < 2 ^ 53"
    and "x * 2 ^ j = of_int n + 1 / 2" and "even n"
  shows "fl x = of_int n / 2 ^ j"
  using fl_eval_round [OF assms(1,2)] round_even_tie [OF assms(4)] by (simp add: assms(3))

lemma fl_1 [simp]: "fl 1 = 1"
  using fl_eval_div [of 1 52 "2 ^ 52"] by simp

text \<open>
  Rounding preserves the sign and the order.
\<close>

lemma fl_pos_bounds:
  assumes "0 < x"
  shows "2 powr of_int \<lfloor>log 2 x\<rfloor> \<le> fl x" and "fl x \<le> 2 * 2 powr of_int \<lfloor>log 2 x\<rfloor>"
proof -
  define e where "e = \<lfloor>log 2 x\<rfloor>"
  define u where "u = (2 :: real) powr (of_int e - 52)"
  have u: "0 < u" by (simp add: u_def)
  have ue: "2 powr of_int e = 2 ^ 52 * u" unfolding u_def ulp_eq by simp
  have f: "fl x = of_int (round_even (x / u)) * u"
    using fl_unfold [of x] assms by (simp add: u_def e_def)
  have lo: "2 powr of_int e \<le> x" unfolding e_def using assms by (rule log2_floor_bounds)
  have "x < 2 powr of_int (e + 1)" unfolding e_def using assms by (rule log2_floor_bounds)
  also have "(2 :: real) powr of_int (e + 1) = 2 * 2 powr of_int e" by (simp add: powr_add)
  finally have hi: "x < 2 * 2 powr of_int e" .
  have y1: "of_int (2 ^ 52) \<le> x / u" using lo u unfolding ue by (simp add: field_simps)
  have y2: "x / u \<le> of_int (2 ^ 53)" using hi u unfolding ue by (simp add: field_simps)
  have "round_even (of_int (2 ^ 52)) \<le> round_even (x / u)" using y1 by (rule round_even_mono)
  then have r1: "2 ^ 52 \<le> round_even (x / u)" by (simp only: round_even_of_int)
  have "round_even (x / u) \<le> round_even (of_int (2 ^ 53))" using y2 by (rule round_even_mono)
  then have r2: "round_even (x / u) \<le> 2 ^ 53" by (simp only: round_even_of_int)
  have "(2 ^ 52 :: real) \<le> of_int (round_even (x / u))" using r1 by (metis of_int_le_iff of_int_numeral of_int_power)
  then have "2 ^ 52 * u \<le> of_int (round_even (x / u)) * u" using u by (intro mult_right_mono) simp_all
  then show "2 powr of_int \<lfloor>log 2 x\<rfloor> \<le> fl x" unfolding f e_def [symmetric] ue .
  have "of_int (round_even (x / u)) \<le> (2 ^ 53 :: real)" using r2 by (metis of_int_le_iff of_int_numeral of_int_power)
  then have "of_int (round_even (x / u)) * u \<le> 2 ^ 53 * u" using u by (intro mult_right_mono) simp_all
  then show "fl x \<le> 2 * 2 powr of_int \<lfloor>log 2 x\<rfloor>" unfolding f e_def [symmetric] ue by simp
qed

lemma fl_pos: "0 < x \<Longrightarrow> 0 < fl x"
proof -
  assume x: "0 < x"
  have "(0 :: real) < 2 powr of_int \<lfloor>log 2 x\<rfloor>" by simp
  then show ?thesis using fl_pos_bounds(1) [OF x] by linarith
qed





subsection \<open>Line lengths in double precision\<close>

lemma baseLength_double_bounds:
  assumes "- 1 \<le> ov" and "ov \<le> 1"
  shows "0 < baseLength_double ov"
    and "\<bar>baseLength_double ov - 30 * (1 + 0.5 * ov)\<bar> \<le> 30 * (1 + 0.5 * ov) / 2 ^ 50"
proof -
  define eps :: real where "eps = 1 / 2 ^ 53"
  define h where "h = fl (ov * 0.5)"
  define f where "f = fl (1 + h)"
  have eps: "0 < eps" "eps \<le> 1 / 1000" by (simp_all add: eps_def)
  have b: "baseLength_double ov = fl (30 * f)" by (simp add: baseLength_double_def f_def h_def)
  have "\<bar>ov * 0.5\<bar> \<le> 1 / 2" using assms by linarith
  then have "\<bar>fl (ov * 0.5) - ov * 0.5\<bar> \<le> (1 / 2) / 2 ^ 53" by (rule fl_abs_err)
  then have h: "\<bar>h - ov * 0.5\<bar> \<le> eps / 2" by (simp add: h_def eps_def)
  have "\<bar>1 + h\<bar> \<le> 151 / 100" using h assms eps by linarith
  then have "\<bar>fl (1 + h) - (1 + h)\<bar> \<le> (151 / 100) / 2 ^ 53" by (rule fl_abs_err)
  then have f: "\<bar>f - (1 + h)\<bar> \<le> 151 / 100 * eps" by (simp add: f_def eps_def)
  have f2: "\<bar>f - (1 + 0.5 * ov)\<bar> \<le> 201 / 100 * eps" using f h by linarith
  have fpos: "49 / 100 \<le> f" using f2 assms eps by linarith
  have fle: "f \<le> 151 / 100" using f2 assms eps by linarith
  have "0 < 30 * f" using fpos by simp
  then show "0 < baseLength_double ov" unfolding b by (rule fl_pos)
  have "\<bar>30 * f\<bar> \<le> 30 * (151 / 100)" using fpos fle by linarith
  then have "\<bar>fl (30 * f) - 30 * f\<bar> \<le> 30 * (151 / 100) / 2 ^ 53" by (rule fl_abs_err)
  then have "\<bar>baseLength_double ov - 30 * f\<bar> \<le> 453 / 10 * eps" by (simp add: b eps_def)
  then have "\<bar>baseLength_double ov - 30 * (1 + 0.5 * ov)\<bar> \<le> 1056 / 10 * eps"
    using f2 by argo
  moreover have "1056 / 10 * eps \<le> 30 * (1 + 0.5 * ov) / 2 ^ 50"
    using assms by (simp add: eps_def)
  ultimately show "\<bar>baseLength_double ov - 30 * (1 + 0.5 * ov)\<bar> \<le> 30 * (1 + 0.5 * ov) / 2 ^ 50"
    by linarith
qed

lemma scaled_err:
  fixes b x y k :: real
  assumes "0 < b" and "\<bar>x - y\<bar> \<le> k"
  shows "\<bar>b * x - b * y\<bar> \<le> b * k"
proof -
  have "\<bar>b * x - b * y\<bar> = b * \<bar>x - y\<bar>" using assms(1) by (simp add: abs_mult right_diff_distrib [symmetric])
  also have "\<dots> \<le> b * k" using assms by (intro mult_left_mono) simp_all
  finally show ?thesis .
qed

lemma diffFactor_double_err:
  assumes "- 1 \<le> d" and "d \<le> 1"
  shows "\<bar>fl (d * fl 0.2) - 0.2 * d\<bar> \<le> (41 / 100) / 2 ^ 53"
proof -
  define c where "c = fl 0.2"
  have "\<bar>0.2 :: real\<bar> \<le> 0.2" by simp
  then have "\<bar>fl 0.2 - 0.2\<bar> \<le> 0.2 / 2 ^ 53" by (rule fl_abs_err)
  then have c: "\<bar>c - 0.2\<bar> \<le> 0.2 / 2 ^ 53" by (simp add: c_def)
  have d1: "\<bar>d\<bar> \<le> 1" using assms by linarith
  have "(0.2 / 2 ^ 53 :: real) \<le> 1 / 100" by simp
  then have cb: "\<bar>c\<bar> \<le> 21 / 100" using c by argo
  have "\<bar>d * (c - 0.2)\<bar> = \<bar>d\<bar> * \<bar>c - 0.2\<bar>" by (rule abs_mult)
  also have "\<dots> \<le> 1 * (0.2 / 2 ^ 53)" using d1 c by (intro mult_mono) simp_all
  finally have e1: "\<bar>d * c - 0.2 * d\<bar> \<le> 0.2 / 2 ^ 53" by (simp add: algebra_simps)
  have "\<bar>d * c\<bar> = \<bar>d\<bar> * \<bar>c\<bar>" by (rule abs_mult)
  also have "\<dots> \<le> 1 * (21 / 100)" using d1 cb by (intro mult_mono) simp_all
  finally have "\<bar>d * c\<bar> \<le> 21 / 100" by simp
  then have "\<bar>fl (d * c) - d * c\<bar> \<le> (21 / 100) / 2 ^ 53" by (rule fl_abs_err)
  then show ?thesis using e1 unfolding c_def by argo
qed

lemma factor_double_err:
  assumes "\<bar>t\<bar> \<le> 21 / 100"
  shows "\<bar>fl (1 + t) - (1 + t)\<bar> \<le> (121 / 100) / 2 ^ 53"
    and "\<bar>fl (1 - t) - (1 - t)\<bar> \<le> (121 / 100) / 2 ^ 53"
proof -
  have "\<bar>1 + t\<bar> \<le> 121 / 100" using assms by linarith
  then show "\<bar>fl (1 + t) - (1 + t)\<bar> \<le> (121 / 100) / 2 ^ 53" by (rule fl_abs_err)
  have "\<bar>1 - t\<bar> \<le> 121 / 100" using assms by linarith
  then show "\<bar>fl (1 - t) - (1 - t)\<bar> \<le> (121 / 100) / 2 ^ 53" by (rule fl_abs_err)
qed

lemma product_double_err:
  assumes "0 < b" and "\<bar>m\<bar> \<le> k"
  shows "\<bar>fl (b * m) - b * m\<bar> \<le> b * k / 2 ^ 53"
proof -
  have "\<bar>b * m\<bar> = b * \<bar>m\<bar>" using assms(1) by (simp add: abs_mult)
  also have "\<dots> \<le> b * k" using assms by (intro mult_left_mono) simp_all
  finally show ?thesis by (rule fl_abs_err)
qed

lemma lengths_double_err:
  assumes "0 < b" and "- 1 \<le> d" and "d \<le> 1"
  shows "\<bar>fl (b * fl (1 - fl (d * fl 0.2))) - b * (1 - 0.2 * d)\<bar> \<le> b / 2 ^ 50"
    and "\<bar>fl (b * fl (1 + fl (d * fl 0.2))) - b * (1 + 0.2 * d)\<bar> \<le> b / 2 ^ 50"
    and "\<bar>fl (b * fl (1 - fl (d * fl 0.2))) + fl (b * fl (1 + fl (d * fl 0.2))) - 2 * b\<bar>
           \<le> b / 2 ^ 50"
    and "\<bar>fl (fl (b * fl (1 - fl (d * fl 0.2))) + fl (b * fl (1 + fl (d * fl 0.2)))) - 2 * b\<bar>
           \<le> b / 2 ^ 50"
proof -
  define eps :: real where "eps = 1 / 2 ^ 53"
  define t where "t = fl (d * fl 0.2)"
  define m where "m = fl (1 - t)"
  define p where "p = fl (1 + t)"
  define l where "l = fl (b * m)"
  define r where "r = fl (b * p)"
  define B where "B = b * eps"
  define bm where "bm = b * m"
  define bp where "bp = b * p"
  define bl where "bl = b * (1 - 0.2 * d)"
  define br where "br = b * (1 + 0.2 * d)"
  have eps: "0 < eps" "eps \<le> 1 / 1000" by (simp_all add: eps_def)
  have B: "0 < B" "B \<le> b / 1000" "b / 2 ^ 50 = 8 * B" using assms(1) by (simp_all add: B_def eps_def)
  have t: "\<bar>t - 0.2 * d\<bar> \<le> 41 / 100 * eps"
    using diffFactor_double_err [OF assms(2,3)] by (simp add: t_def eps_def)
  have tb: "\<bar>t\<bar> \<le> 21 / 100" using t eps assms(2,3) by argo
  have m: "\<bar>m - (1 - t)\<bar> \<le> 121 / 100 * eps"
    using factor_double_err(2) [OF tb] by (simp add: m_def eps_def)
  have p: "\<bar>p - (1 + t)\<bar> \<le> 121 / 100 * eps"
    using factor_double_err(1) [OF tb] by (simp add: p_def eps_def)
  have mb: "\<bar>m\<bar> \<le> 122 / 100" using m tb eps by argo
  have pb: "\<bar>p\<bar> \<le> 122 / 100" using p tb eps by argo
  have l: "\<bar>l - bm\<bar> \<le> 122 / 100 * B"
    using product_double_err [OF assms(1) mb] by (simp add: l_def bm_def B_def eps_def)
  have r: "\<bar>r - bp\<bar> \<le> 122 / 100 * B"
    using product_double_err [OF assms(1) pb] by (simp add: r_def bp_def B_def eps_def)
  have "\<bar>m - (1 - 0.2 * d)\<bar> \<le> 162 / 100 * eps" using m t by argo
  from scaled_err [OF assms(1) this]
  have ml: "\<bar>bm - bl\<bar> \<le> 162 / 100 * B" by (simp add: bm_def bl_def B_def)
  have "\<bar>p - (1 + 0.2 * d)\<bar> \<le> 162 / 100 * eps" using p t by argo
  from scaled_err [OF assms(1) this]
  have pr: "\<bar>bp - br\<bar> \<le> 162 / 100 * B" by (simp add: bp_def br_def B_def)
  have "\<bar>(m + p) - 2\<bar> \<le> 242 / 100 * eps" using m p by argo
  from scaled_err [OF assms(1) this]
  have mp: "\<bar>bm + bp - 2 * b\<bar> \<le> 242 / 100 * B"
    by (simp add: bm_def bp_def B_def algebra_simps)
  have L: "\<bar>l - bl\<bar> \<le> 8 * B" using l ml B(1) by argo
  have R: "\<bar>r - br\<bar> \<le> 8 * B" using r pr B(1) by argo
  have s: "\<bar>l + r - 2 * b\<bar> \<le> 486 / 100 * B" using l r mp by argo
  have "\<bar>l + r\<bar> \<le> b * (201 / 100)" using s B assms(1) by argo
  then have "\<bar>fl (l + r) - (l + r)\<bar> \<le> b * (201 / 100) / 2 ^ 53" by (rule fl_abs_err)
  then have "\<bar>fl (l + r) - (l + r)\<bar> \<le> 201 / 100 * B" by (simp add: B_def eps_def)
  then have S: "\<bar>fl (l + r) - 2 * b\<bar> \<le> 8 * B" using s B(1) by argo
  have S0: "\<bar>l + r - 2 * b\<bar> \<le> 8 * B" using s B(1) by argo
  show "\<bar>fl (b * fl (1 - fl (d * fl 0.2))) - b * (1 - 0.2 * d)\<bar> \<le> b / 2 ^ 50"
    using L unfolding B(3) l_def m_def t_def bl_def .
  show "\<bar>fl (b * fl (1 + fl (d * fl 0.2))) - b * (1 + 0.2 * d)\<bar> \<le> b / 2 ^ 50"
    using R unfolding B(3) r_def p_def t_def br_def .
  show "\<bar>fl (b * fl (1 - fl (d * fl 0.2))) + fl (b * fl (1 + fl (d * fl 0.2))) - 2 * b\<bar>
           \<le> b / 2 ^ 50"
    using S0 unfolding B(3) l_def r_def m_def p_def t_def .
  show "\<bar>fl (fl (b * fl (1 - fl (d * fl 0.2))) + fl (b * fl (1 + fl (d * fl 0.2)))) - 2 * b\<bar>
           \<le> b / 2 ^ 50"
    using S unfolding B(3) l_def r_def m_def p_def t_def .
qed

text \<open>
  C10. In double precision, for an overall and a differential adjustment in \<open>[-1, 1]\<close>:
  the base length that \<open>updateEffectiveLineLengths\<close> computes is positive and is
  \<open>30 \<times> (1 + 0.5 \<times> overallLengthAdjustment)\<close> up to a relative error of \<open>1 / 2 ^ 50\<close>; the new
  left and right line lengths are \<open>baseLength \<times> (1 - 0.2 \<times> differentialLengthAdjustment)\<close>
  and \<open>baseLength \<times> (1 + 0.2 \<times> differentialLengthAdjustment)\<close> up to an error of
  \<open>baseLength / 2 ^ 50\<close>, so the differential adjustment moves length from one line to the
  other; and their sum, both the exact sum of the two doubles and the sum added in double
  precision, is \<open>2 \<times> baseLength\<close> up to an error of \<open>baseLength / 2 ^ 50\<close>. The total is
  kept up to rounding, not exactly.
\<close>

theorem updateEffectiveLineLengths_double_sum:
  assumes "- 1 \<le> overall" and "overall \<le> 1" and "- 1 \<le> differential" and "differential \<le> 1"
  shows "0 < baseLength_double overall
         \<and> \<bar>baseLength_double overall - 30 * (1 + 0.5 * overall)\<bar>
               \<le> 30 * (1 + 0.5 * overall) / 2 ^ 50
         \<and> \<bar>fst (updateEffectiveLineLengths_double overall differential)
              - baseLength_double overall * (1 - 0.2 * differential)\<bar>
               \<le> baseLength_double overall / 2 ^ 50
         \<and> \<bar>snd (updateEffectiveLineLengths_double overall differential)
              - baseLength_double overall * (1 + 0.2 * differential)\<bar>
               \<le> baseLength_double overall / 2 ^ 50
         \<and> \<bar>fst (updateEffectiveLineLengths_double overall differential)
              + snd (updateEffectiveLineLengths_double overall differential)
              - 2 * baseLength_double overall\<bar>
               \<le> baseLength_double overall / 2 ^ 50
         \<and> \<bar>fl (fst (updateEffectiveLineLengths_double overall differential)
                  + snd (updateEffectiveLineLengths_double overall differential))
              - 2 * baseLength_double overall\<bar>
               \<le> baseLength_double overall / 2 ^ 50"
proof -
  note b = baseLength_double_bounds [OF assms(1,2)]
  note e = lengths_double_err [OF b(1) assms(3,4)]
  show ?thesis
    using b e by (simp add: updateEffectiveLineLengths_double_def Let_def)
qed

text \<open>
  The default overall adjustment 0 (base length 30) with a differential adjustment of
  one half.
\<close>

theorem updateEffectiveLineLengths_double_sum_witness:
  "- 1 \<le> (0 :: real) \<and> (0 :: real) \<le> 1 \<and> - 1 \<le> (1 / 2 :: real) \<and> (1 / 2 :: real) \<le> 1
   \<and> 0 < baseLength_double 0
   \<and> \<bar>fst (updateEffectiveLineLengths_double 0 (1 / 2)) - baseLength_double 0 * (1 - 0.2 * (1 / 2))\<bar>
        \<le> baseLength_double 0 / 2 ^ 50
   \<and> \<bar>snd (updateEffectiveLineLengths_double 0 (1 / 2)) - baseLength_double 0 * (1 + 0.2 * (1 / 2))\<bar>
        \<le> baseLength_double 0 / 2 ^ 50
   \<and> \<bar>fst (updateEffectiveLineLengths_double 0 (1 / 2))
        + snd (updateEffectiveLineLengths_double 0 (1 / 2)) - 2 * baseLength_double 0\<bar>
        \<le> baseLength_double 0 / 2 ^ 50
   \<and> \<bar>fl (fst (updateEffectiveLineLengths_double 0 (1 / 2))
            + snd (updateEffectiveLineLengths_double 0 (1 / 2)))
        - 2 * baseLength_double 0\<bar> \<le> baseLength_double 0 / 2 ^ 50"
  using updateEffectiveLineLengths_double_sum [of 0 "1 / 2"] by simp

text \<open>
  The evaluation of \<open>updateEffectiveLineLengths\<close> at the overall adjustment 0 and the
  differential adjustment 0.85, operation by operation.
\<close>

lemma fl_0_2: "fl (0.2) = 3602879701896397 / 2 ^ 54"
  using fl_eval_div [of "0.2" 55 7205759403792794] by simp

lemma fl_0_85: "fl (0.85) = 7656119366529843 / 2 ^ 53"
  using fl_eval_div [of "0.85" 53 7656119366529843] by simp

lemma lengths_step_t: "fl (7656119366529843 / 2 ^ 53 * (3602879701896397 / 2 ^ 54)) = 6124895493223875 / 2 ^ 55"
  using fl_eval_div [of "7656119366529843 / 2 ^ 53 * (3602879701896397 / 2 ^ 54)" 55 6124895493223875] by simp

lemma lengths_step_m: "fl (1 - 6124895493223875 / 2 ^ 55) = 7475975381435023 / 2 ^ 53"
  using fl_eval_div [of "1 - 6124895493223875 / 2 ^ 55" 53 7475975381435023] by simp

lemma lengths_step_p: "fl (1 + 6124895493223875 / 2 ^ 55) = 658651445502935 / 2 ^ 49"
  using fl_eval_div [of "1 + 6124895493223875 / 2 ^ 55" 52 5269211564023480] by simp

lemma lengths_step_l: "fl (30 * (7475975381435023 / 2 ^ 53)) = 3504363460047667 / 2 ^ 47"
  using fl_eval_div [of "30 * (7475975381435023 / 2 ^ 53)" 48 7008726920095334] by simp

lemma lengths_step_r: "fl (30 * (658651445502935 / 2 ^ 49)) = 1234971460318003 / 2 ^ 45"
  using fl_eval_tie_even [of "30 * (658651445502935 / 2 ^ 49)" 47 4939885841272012] by simp

lemma lengths_step_s: "fl (3504363460047667 / 2 ^ 47 + 1234971460318003 / 2 ^ 45) = 8444249301319679 / 2 ^ 47"
  using fl_eval_div [of "3504363460047667 / 2 ^ 47 + 1234971460318003 / 2 ^ 45" 47 8444249301319679] by simp

lemma fl_30: "fl 30 = 30"
  using fl_eval_div [of 30 48 "30 * 2 ^ 48"] by simp

lemma baseLength_double_0: "baseLength_double 0 = 30"
  by (simp add: baseLength_double_def fl_30)

lemma updateEffectiveLineLengths_double_chain:
  assumes "baseLength_double ov = b" and "fl 0.2 = c" and "fl (d * c) = t"
    and "fl (1 - t) = m" and "fl (1 + t) = p" and "fl (b * m) = l" and "fl (b * p) = r"
  shows "updateEffectiveLineLengths_double ov d = (l, r)"
  using assms by (simp add: updateEffectiveLineLengths_double_def Let_def)

text \<open>
  The sum is not exact. With the default overall adjustment 0 the base length is 30; at
  the differential adjustment 0.85 the program sets the left line length to
  \<open>24.9\<close> and the right line length to \<open>35.099999999999994\<close>; their sum, exact or
  in double precision, is \<open>59.99999999999999\<close>, one unit in the last place below
  \<open>2 \<times> 30 = 60\<close>.
\<close>

theorem updateEffectiveLineLengths_double_sum_counterexample:
  "baseLength_double 0 = 30
   \<and> updateEffectiveLineLengths_double 0 (fl 0.85)
       = (3504363460047667 / 2 ^ 47, 1234971460318003 / 2 ^ 45)
   \<and> (3504363460047667 / 2 ^ 47 + 1234971460318003 / 2 ^ 45 :: real) \<noteq> 2 * 30
   \<and> fl (3504363460047667 / 2 ^ 47 + 1234971460318003 / 2 ^ 45) = 8444249301319679 / 2 ^ 47
   \<and> (8444249301319679 / 2 ^ 47 :: real) \<noteq> 2 * 30"
proof -
  have u: "updateEffectiveLineLengths_double 0 (7656119366529843 / 2 ^ 53)
             = (3504363460047667 / 2 ^ 47, 1234971460318003 / 2 ^ 45)"
    by (rule updateEffectiveLineLengths_double_chain
          [OF baseLength_double_0 fl_0_2 lengths_step_t lengths_step_m lengths_step_p lengths_step_l lengths_step_r])
  have n: "(8444249301319679 / 2 ^ 47 :: real) \<noteq> 2 * 30" by simp
  have n0: "(3504363460047667 / 2 ^ 47 + 1234971460318003 / 2 ^ 45 :: real) \<noteq> 2 * 30" by simp
  show ?thesis using baseLength_double_0 u lengths_step_s n n0 unfolding fl_0_85 by simp
qed

subsection \<open>Line tension in double precision\<close>






















section \<open>The bounded sub-step loop\<close>

lemma physicsLoop_steps:
  "physicsLoop step acc n w = (acc', n', w') \<Longrightarrow> n \<le> maxSteps \<Longrightarrow>
     n \<le> n' \<and> n' \<le> maxSteps \<and> w' = ((step FIXED_TIME_STEP) ^^ (n' - n)) w"
proof (induction step acc n w rule: physicsLoop.induct)
  case (1 step acc steps w)
  show ?case
  proof (cases "acc \<ge> FIXED_TIME_STEP \<and> steps < maxSteps")
    case True
    then have "physicsLoop step acc steps w
                 = physicsLoop step (acc - FIXED_TIME_STEP) (Suc steps) (step FIXED_TIME_STEP w)"
      by (subst physicsLoop.simps) auto
    then have eq: "physicsLoop step (acc - FIXED_TIME_STEP) (Suc steps)
                     (step FIXED_TIME_STEP w) = (acc', n', w')"
      using "1.prems"(1) by simp
    from True have "Suc steps \<le> maxSteps" by simp
    from "1.IH" [OF True eq this]
    have ih: "Suc steps \<le> n'" "n' \<le> maxSteps"
      "w' = (step FIXED_TIME_STEP ^^ (n' - Suc steps)) (step FIXED_TIME_STEP w)" by simp_all
    have "n' - steps = Suc (n' - Suc steps)" using ih(1) by simp
    then have "(step FIXED_TIME_STEP ^^ (n' - steps)) w
                 = (step FIXED_TIME_STEP ^^ (n' - Suc steps)) (step FIXED_TIME_STEP w)"
      by (simp add: funpow_swap1)
    with ih show ?thesis by simp
  next
    case False
    then have "physicsLoop step acc steps w = (acc, steps, w)"
      by (subst physicsLoop.simps) auto
    then have "(acc', n', w') = (acc, steps, w)"
      using "1.prems"(1) by simp
    with "1.prems"(2) show ?thesis by simp
  qed
qed

text \<open>
  C3. A call of \<open>updatePhysics\<close> in the running state runs \<open>n \<le> 10\<close> sub-steps: the world
  it returns is the \<open>n\<close>-fold sub-step of the world it was given, and \<open>n\<close> is the step
  count of the loop. If the loop stopped with the bound reached and the accumulator still
  above the fixed step (the overload event), the accumulator is zero when the call
  returns, and the overload diagnostic has been written.
\<close>

theorem updatePhysics_bounded:
  assumes "isRunning e"
  shows "case updatePhysics step dt (e, w) of (msgs, n, e', w') \<Rightarrow>
           n \<le> 10 \<and> w' = ((step FIXED_TIME_STEP) ^^ n) w
           \<and> (case physicsLoop step (accumulator e + Math_min dt (Num 0.1) * timeScale e) 0 w of
                 (acc, steps, w1) \<Rightarrow>
                   steps = n \<and>
                   (steps \<ge> maxSteps \<and> acc > FIXED_TIME_STEP \<longrightarrow>
                      accumulator e' = Num 0
                      \<and> msgs = [''Physics system overloaded, draining accumulator'']))"
proof -
  obtain acc n w1 where
    L: "physicsLoop step (accumulator e + Math_min dt (Num 0.1) * timeScale e) 0 w = (acc, n, w1)"
    by (cases "physicsLoop step (accumulator e + Math_min dt (Num 0.1) * timeScale e) 0 w") auto
  from physicsLoop_steps [OF L]
  have "n \<le> maxSteps" "w1 = ((step FIXED_TIME_STEP) ^^ n) w" by simp_all
  then show ?thesis using assms L by (simp add: updatePhysics_def Let_def maxSteps_def)
qed

text \<open>
  A frame of one second after \<open>initPhysics\<close>, with a sub-step that counts its calls: the
  frame is cut to 0.1 s, worth twelve sub-steps; ten are run and the rest is dropped.
\<close>

theorem updatePhysics_bounded_witness:
  "isRunning (snd (initPhysics engineInit))
   \<and> updatePhysics (\<lambda>dt n. Suc n) (Num 1) (snd (initPhysics engineInit), 0 :: nat)
       = ([''Physics system overloaded, draining accumulator''], 10,
          snd (initPhysics engineInit)\<lparr>accumulator := Num 0\<rparr>, 10)"
  using updatePhysics_bounded [where e = "snd (initPhysics engineInit)"
      and step = "\<lambda>dt n. Suc n" and dt = "Num 1" and w = "0 :: nat"]
  by (simp add: updatePhysics_def initPhysics_def engineInit_def physicsLoop.simps
      FIXED_TIME_STEP_def maxSteps_def Let_def)

section \<open>Applying forces and resetting the kite\<close>

text \<open>
  C8. \<open>applyForce\<close> with a force that has a \<open>NaN\<close> component writes the diagnostic and
  returns the kite state as it was: position, velocity, rotation, angular velocity, the
  smoothing accumulators and every other field are unchanged.
\<close>

theorem applyForce_NaN_noop:
  assumes "isNaN (X force) \<or> isNaN (Y force) \<or> isNaN (Z force)"
  shows "applyForce force k = ([''Invalid force values:''], k)"
  using assms by (simp add: applyForce_def)

theorem applyForce_NaN_noop_witness:
  "(isNaN (X \<lparr>X = Num 1, Y = NaN, Z = Num 0\<rparr>) \<or> isNaN (Y \<lparr>X = Num 1, Y = NaN, Z = Num 0\<rparr>)
      \<or> isNaN (Z \<lparr>X = Num 1, Y = NaN, Z = Num 0\<rparr>))
   \<and> applyForce \<lparr>X = Num 1, Y = NaN, Z = Num 0\<rparr> kiteProperties
       = ([''Invalid force values:''], kiteProperties)"
  using applyForce_NaN_noop [of "\<lparr>X = Num 1, Y = NaN, Z = Num 0\<rparr>" kiteProperties]
  by simp

text \<open>
  C4, as the code has it. \<open>resetKite\<close> puts the kite at the launch pose whatever the state
  before: position \<open>(0, 15, -10 - 15 \<surd>3)\<close>, that is 30 m of line at 30 degrees of
  elevation from the pilot at \<open>z = -10\<close>, rotation \<open>(-\<pi>/3, 0, 0)\<close>, velocity and angular
  velocity zero. It does not touch the two smoothing accumulators, which keep the values
  of the flight before. A second reset changes nothing more.
\<close>

theorem resetKite_pose:
  "position (snd (resetKite k)) = \<lparr>X = Num 0, Y = Num 15, Z = Num (- 10 - 15 * sqrt 3)\<rparr>
   \<and> rotation (snd (resetKite k)) = \<lparr>X = Num (- (pi / 3)), Y = Num 0, Z = Num 0\<rparr>
   \<and> velocity (snd (resetKite k)) = vec0
   \<and> angularVelocity (snd (resetKite k)) = vec0
   \<and> smoothedAcceleration (snd (resetKite k)) = smoothedAcceleration k
   \<and> smoothedAngularAcceleration (snd (resetKite k)) = smoothedAngularAcceleration k
   \<and> resetKite (snd (resetKite k)) = resetKite k"
  by (simp add: resetKite_def Let_def Math_PI_def sin_30 cos_30 split: option.splits)

text \<open>
  After one force of 1 N along x on the initial kite the smoothed acceleration is
  \<open>(0.3, 0, 0)\<close>; a reset keeps it, so the state after the reset differs from the state
  a reset of the untouched kite gives.
\<close>

theorem resetKite_keeps_smoothing_counterexample:
  "smoothedAcceleration
     (snd (resetKite (snd (applyForce \<lparr>X = Num 1, Y = Num 0, Z = Num 0\<rparr> kiteProperties))))
     = Some \<lparr>X = Num 0.3, Y = Num 0, Z = Num 0\<rparr>
   \<and> snd (resetKite (snd (applyForce \<lparr>X = Num 1, Y = Num 0, Z = Num 0\<rparr> kiteProperties)))
       \<noteq> snd (resetKite kiteProperties)"
  by (simp add: applyForce_def resetKite_def kiteProperties_def vec0_def Let_def)


section \<open>Wind speed floor\<close>

text \<open>
  C5, as the code has it. With finite wind parameters and a random draw in \<open>[0, 1)\<close>, the
  speed after \<open>updateWindVariation\<close> is a number \<open>s \<ge> 0.1\<close>: the floor is the constant
  0.1 m/s and is not scaled by the base speed. With \<open>userWindScale = 0\<close> the speed is
  exactly 0.1, whatever the clock and the draw. The bound \<open>s \<ge> 0.1 \<times> baseSpeed \<times> userWindScale\<close>
  holds when base speed, scale, gust strength and turbulence are not negative and
  \<open>gustStrength + turbulence / 2 \<le> 0.9\<close>, as with the defaults 0.2 and 0.1.
\<close>

theorem updateWindVariation_floor:
  assumes "baseSpeed w = Num b" and "gustStrength w = Num g" and "gustFrequency w = Num f"
    and "turbulence w = Num t" and "userWindScale w = Num u"
    and "0 \<le> r" and "r < 1"
  shows "\<exists>s. currentSpeed (updateWindVariation (Num now) (Num r) r1 r2 r3 deltaTime w) = Num s
           \<and> 0.1 \<le> s
           \<and> (u = 0 \<longrightarrow> s = 0.1)
           \<and> (0 \<le> b \<and> 0 \<le> u \<and> 0 \<le> g \<and> 0 \<le> t \<and> g + t / 2 \<le> 0.9
                 \<longrightarrow> 0.1 * b * u \<le> s)"
proof -
  let ?vf = "1 + sin (now / 1000 * f) * g + (r - 0.5) * t"
  let ?s = "max 0.1 (b * ?vf * u)"
  have eq: "currentSpeed (updateWindVariation (Num now) (Num r) r1 r2 r3 deltaTime w) = Num ?s"
    using assms(1-5) by (simp add: updateWindVariation_def Let_def)
  have bound: "0.1 * b * u \<le> ?s"
    if h: "0 \<le> b" "0 \<le> u" "0 \<le> g" "0 \<le> t" "g + t / 2 \<le> 0.9"
  proof -
    have "- 1 \<le> sin (now / 1000 * f)" by simp
    then have "- g \<le> sin (now / 1000 * f) * g"
      using h(3) mult_right_mono [of "- 1" "sin (now / 1000 * f)" g] by simp
    moreover have "- (t / 2) \<le> (r - 0.5) * t"
      using h(4) assms(6) mult_right_mono [of "- (1 / 2)" "r - 0.5" t] by simp
    ultimately have "0.1 \<le> ?vf" using h(5) by simp
    then have "0.1 * b \<le> b * ?vf"
      using h(1) mult_left_mono [of "0.1" ?vf b] by (simp add: mult.commute)
    then have "0.1 * b * u \<le> b * ?vf * u" using h(2) by (rule mult_right_mono)
    then show ?thesis by simp
  qed
  show ?thesis using eq bound by (intro exI [of _ ?s]) auto
qed

theorem updateWindVariation_floor_witness:
  "baseSpeed windState = Num 5 \<and> gustStrength windState = Num 0.2
   \<and> gustFrequency windState = Num 0.2 \<and> turbulence windState = Num 0.1
   \<and> userWindScale windState = Num 1 \<and> (0 :: real) \<le> 0.25 \<and> (0.25 :: real) < 1
   \<and> (\<exists>s. currentSpeed (updateWindVariation (Num 0) (Num 0.25) (Num 0.5) (Num 0.5) (Num 0.5)
                             (Num 0.016) windState) = Num s
            \<and> 0.1 \<le> s \<and> 0.1 * 5 * 1 \<le> s)
   \<and> userWindScale (setWindSpeed (Num 0) windState) = Num 0
   \<and> (\<exists>s. currentSpeed (updateWindVariation (Num 0) (Num 0.25) (Num 0.5) (Num 0.5) (Num 0.5)
                             (Num 0.016) (setWindSpeed (Num 0) windState)) = Num s
            \<and> s = 0.1)"
  using updateWindVariation_floor [where w = windState and b = 5 and g = "0.2" and f = "0.2"
      and t = "0.1" and u = 1 and r = "0.25" and now = 0 and ?r1.0 = "Num 0.5"
      and ?r2.0 = "Num 0.5" and ?r3.0 = "Num 0.5" and deltaTime = "Num 0.016"]
    updateWindVariation_floor [where w = "setWindSpeed (Num 0) windState" and b = 5
      and g = "0.2" and f = "0.2" and t = "0.1" and u = 0 and r = "0.25" and now = 0
      and ?r1.0 = "Num 0.5" and ?r2.0 = "Num 0.5" and ?r3.0 = "Num 0.5"
      and deltaTime = "Num 0.016"]
  by (auto simp add: windState_def setWindSpeed_def)

text \<open>
  The default wind with the user scale set to 0: the speed after the update is 0.1, and
  0.1 times the base speed is 0.5.
\<close>

theorem updateWindVariation_floor_counterexample:
  "currentSpeed (updateWindVariation (Num 0) (Num 0.5) (Num 0.5) (Num 0.5) (Num 0.5) (Num 0.016)
                   (setWindSpeed (Num 0) windState)) = Num 0.1
   \<and> Num 0.1 * baseSpeed (updateWindVariation (Num 0) (Num 0.5) (Num 0.5) (Num 0.5) (Num 0.5)
                             (Num 0.016) (setWindSpeed (Num 0) windState)) = Num 0.5
   \<and> Num 0.1 \<noteq> Num 0.5"
  by (simp add: updateWindVariation_def setWindSpeed_def windState_def Let_def)

section \<open>Normalising vectors\<close>

lemma sumsq_nonneg: "0 \<le> a * a + b * b + c * (c :: real)"
  by (intro add_nonneg_nonneg) simp_all

lemma sumsq_zero_iff: "a * a + b * b + c * (c :: real) = 0 \<longleftrightarrow> a = 0 \<and> b = 0 \<and> c = 0"
proof
  assume h: "a * a + b * b + c * c = 0"
  have "0 \<le> a * a" "0 \<le> b * b" "0 \<le> c * c" by simp_all
  with h have "a * a = 0" "b * b = 0" "c * c = 0" by linarith+
  then show "a = 0 \<and> b = 0 \<and> c = 0" by simp
qed simp

text \<open>
  C9, as the code has it. On a vector of finite components neither \<open>Vector3.normalize\<close>
  nor \<open>normalizeVector\<close> produces a \<open>NaN\<close> component, and both return the zero vector
  for the zero vector. \<open>normalizeVector\<close> returns the zero vector whenever the magnitude
  is below 0.0001. \<open>Vector3.normalize\<close> has no such threshold: on every vector other than
  zero the magnitude is positive and it divides each component by it, so it never divides
  by zero.
\<close>

theorem normalize_guards:
  "(\<exists>a' b' c'. Vector3_normalize \<lparr>X = Num a, Y = Num b, Z = Num c\<rparr>
                  = \<lparr>X = Num a', Y = Num b', Z = Num c'\<rparr>)
   \<and> (\<exists>a' b' c'. normalizeVector \<lparr>X = Num a, Y = Num b, Z = Num c\<rparr>
                    = \<lparr>X = Num a', Y = Num b', Z = Num c'\<rparr>)
   \<and> (a = 0 \<and> b = 0 \<and> c = 0 \<longrightarrow>
         Vector3_normalize \<lparr>X = Num a, Y = Num b, Z = Num c\<rparr> = vec0
         \<and> normalizeVector \<lparr>X = Num a, Y = Num b, Z = Num c\<rparr> = vec0)
   \<and> (sqrt (a * a + b * b + c * c) < 0.0001 \<longrightarrow>
         normalizeVector \<lparr>X = Num a, Y = Num b, Z = Num c\<rparr> = vec0)
   \<and> (\<not> (a = 0 \<and> b = 0 \<and> c = 0) \<longrightarrow>
         0 < sqrt (a * a + b * b + c * c)
         \<and> Vector3_normalize \<lparr>X = Num a, Y = Num b, Z = Num c\<rparr>
             = \<lparr>X = Num (a / sqrt (a * a + b * b + c * c)),
                Y = Num (b / sqrt (a * a + b * b + c * c)),
                Z = Num (c / sqrt (a * a + b * b + c * c))\<rparr>)"
proof (cases "a = 0 \<and> b = 0 \<and> c = 0")
  case True
  then show ?thesis
    by (simp add: Vector3_normalize_def Vector3_magnitude_def normalizeVector_def
        Let_def vec0_def)
next
  case False
  let ?q = "a * a + b * b + c * c"
  let ?v = "\<lparr>X = Num a, Y = Num b, Z = Num c\<rparr>"
  have "?q \<noteq> 0" using False sumsq_zero_iff [of a b c] by blast
  then have q: "0 < ?q" using sumsq_nonneg [of a b c] by linarith
  then have pos: "0 < sqrt ?q" by (rule real_sqrt_gt_zero)
  have nn: "\<not> ?q < 0" using q by linarith
  have m: "Math_sqrt (Num ?q) = Num (sqrt ?q)" using nn by simp
  have V: "Vector3_normalize ?v = \<lparr>X = Num (a / sqrt ?q), Y = Num (b / sqrt ?q),
                                     Z = Num (c / sqrt ?q)\<rparr>"
    using pos by (simp add: Vector3_normalize_def Vector3_magnitude_def Let_def m)
  have N: "normalizeVector ?v =
             (if sqrt ?q < 0.0001 then \<lparr>X = Num 0, Y = Num 0, Z = Num 0\<rparr>
              else \<lparr>X = Num (a / sqrt ?q), Y = Num (b / sqrt ?q), Z = Num (c / sqrt ?q)\<rparr>)"
    using pos by (simp add: normalizeVector_def Let_def m)
  have Z: "a = 0 \<and> b = 0 \<and> c = 0 \<longrightarrow>
             Vector3_normalize ?v = vec0 \<and> normalizeVector ?v = vec0"
    using False by blast
  have E1: "\<exists>a' b' c'. Vector3_normalize ?v = \<lparr>X = Num a', Y = Num b', Z = Num c'\<rparr>"
    unfolding V by blast
  have E2: "\<exists>a' b' c'. normalizeVector ?v = \<lparr>X = Num a', Y = Num b', Z = Num c'\<rparr>"
    unfolding N by (cases "sqrt ?q < 0.0001") auto
  have T: "sqrt ?q < 0.0001 \<longrightarrow> normalizeVector ?v = vec0"
    unfolding N by (simp add: vec0_def)
  show ?thesis using E1 E2 Z T pos V by blast
qed

text \<open>The zero vector, and the vector \<open>(3, 0, 4)\<close> of magnitude 5.\<close>

theorem normalize_guards_witness:
  "Vector3_normalize \<lparr>X = Num 0, Y = Num 0, Z = Num 0\<rparr> = vec0
   \<and> normalizeVector \<lparr>X = Num 0, Y = Num 0, Z = Num 0\<rparr> = vec0
   \<and> Vector3_normalize \<lparr>X = Num 3, Y = Num 0, Z = Num 4\<rparr>
       = \<lparr>X = Num (3 / 5), Y = Num 0, Z = Num (4 / 5)\<rparr>"
proof -
  have "sqrt (5 * 5) = (5 :: real)" by (subst real_sqrt_abs2) simp
  then have s: "sqrt 25 = (5 :: real)" by simp
  show ?thesis
    using normalize_guards [of 0 0 0] normalize_guards [of 3 0 4]
    by (simp add: s)
qed

text \<open>
  A vector of magnitude 0.00005, below the threshold of 0.0001: \<open>Vector3.normalize\<close>
  returns the unit vector, not the zero vector.
\<close>

theorem Vector3_normalize_threshold_counterexample:
  "Vector3_magnitude \<lparr>X = Num 0.00005, Y = Num 0, Z = Num 0\<rparr> = Num 0.00005
   \<and> Num 0.00005 < Num 0.0001
   \<and> Vector3_normalize \<lparr>X = Num 0.00005, Y = Num 0, Z = Num 0\<rparr>
       = \<lparr>X = Num 1, Y = Num 0, Z = Num 0\<rparr>"
proof -
  have "sqrt (0.00005 * 0.00005) = (0.00005 :: real)" by (subst real_sqrt_abs2) simp
  then have s: "sqrt (1 / 400000000) = (1 / 20000 :: real)" by simp
  show ?thesis
    by (simp add: Vector3_normalize_def Vector3_magnitude_def Let_def s)
qed


section \<open>The lift curve\<close>







section \<open>The limit on the tether force\<close>

lemma limitForce_Num:
  "limitForce \<lparr>X = Num x, Y = Num y, Z = Num z\<rparr> =
     (if 400 < x * x + y * y + z * z
      then \<lparr>X = Num (x * (20 / sqrt (x * x + y * y + z * z))),
             Y = Num (y * (20 / sqrt (x * x + y * y + z * z))),
             Z = Num (z * (20 / sqrt (x * x + y * y + z * z)))\<rparr>
      else \<lparr>X = Num x, Y = Num y, Z = Num z\<rparr>)"
proof (cases "400 < x * x + y * y + z * z")
  case True
  then have "0 < sqrt (x * x + y * y + z * z)" by simp
  then show ?thesis using True by (simp add: limitForce_def Let_def)
next
  case False
  then show ?thesis by (simp add: limitForce_def Let_def)
qed

lemma limitForce_bound:
  "\<exists>x' y' z'. limitForce \<lparr>X = Num x, Y = Num y, Z = Num z\<rparr>
                  = \<lparr>X = Num x', Y = Num y', Z = Num z'\<rparr>
      \<and> x' * x' + y' * y' + z' * z' \<le> 400"
proof (cases "400 < x * x + y * y + z * z")
  case True
  define q where "q = x * x + y * y + z * z"
  define s where "s = 20 / sqrt q"
  have q: "0 < q" using True by (simp add: q_def)
  have "sqrt q * sqrt q = q" using q by simp
  then have ss: "s * s = 400 / q" by (simp add: s_def)
  have "x * s * (x * s) + y * s * (y * s) + z * s * (z * s) = q * (s * s)"
    unfolding q_def by (simp only: algebra_simps)
  also have "\<dots> = 400" using q unfolding ss by simp
  finally have "x * s * (x * s) + y * s * (y * s) + z * s * (z * s) \<le> 400" by simp
  then show ?thesis using True unfolding limitForce_Num s_def q_def
    by (simp only: if_True) blast
next
  case False
  then show ?thesis unfolding limitForce_Num by (simp only: if_False) auto
qed

lemma num_cases3:
  assumes "\<not> (isNaN (X v) \<or> isNaN (Y v) \<or> isNaN (Z v))"
  obtains x y z where "v = \<lparr>X = Num x, Y = Num y, Z = Num z\<rparr>"
proof -
  obtain a b c where v: "v = \<lparr>X = a, Y = b, Z = c\<rparr>" by (cases v) auto
  with assms obtain x y z where "a = Num x" "b = Num y" "c = Num z"
    by (cases a; cases b; cases c) auto
  with v that show ?thesis by blast
qed

lemma sqrt_sq_num: "0 \<le> a \<Longrightarrow> sqrt (a * a) = (a :: real)"
  by (subst real_sqrt_abs2) simp

lemma cauchy3:
  fixes a b c d e f :: real
  shows "a * d + b * e + c * f \<le> sqrt (a * a + b * b + c * c) * sqrt (d * d + e * e + f * f)"
proof -
  define U where "U = a * a + b * b + c * c"
  define W where "W = d * d + e * e + f * f"
  define p where "p = a * d + b * e + c * f"
  have "U * W - p * p = (a * e - b * d) * (a * e - b * d) + (a * f - c * d) * (a * f - c * d)
          + (b * f - c * e) * (b * f - c * e)"
    unfolding U_def W_def p_def by (simp add: algebra_simps)
  moreover have "0 \<le> (a * e - b * d) * (a * e - b * d) + (a * f - c * d) * (a * f - c * d)
          + (b * f - c * e) * (b * f - c * e)"
    by (intro add_nonneg_nonneg) simp_all
  ultimately have "p * p \<le> U * W" by linarith
  then have "sqrt (p * p) \<le> sqrt (U * W)" by (rule real_sqrt_le_mono)
  then have "\<bar>p\<bar> \<le> sqrt U * sqrt W" by (simp add: real_sqrt_mult)
  then have "p \<le> sqrt U * sqrt W" by linarith
  then show ?thesis unfolding U_def W_def p_def .
qed

lemma triangle3:
  fixes a b c d e f :: real
  shows "sqrt ((a + d) * (a + d) + (b + e) * (b + e) + (c + f) * (c + f))
           \<le> sqrt (a * a + b * b + c * c) + sqrt (d * d + e * e + f * f)"
proof -
  define U where "U = a * a + b * b + c * c"
  define W where "W = d * d + e * e + f * f"
  define p where "p = a * d + b * e + c * f"
  have U: "0 \<le> U" unfolding U_def by (rule sumsq_nonneg)
  have W: "0 \<le> W" unfolding W_def by (rule sumsq_nonneg)
  have p: "p \<le> sqrt U * sqrt W" unfolding p_def U_def W_def by (rule cauchy3)
  have "(a + d) * (a + d) + (b + e) * (b + e) + (c + f) * (c + f) = U + 2 * p + W"
    unfolding U_def W_def p_def by (simp add: algebra_simps)
  also have "\<dots> \<le> U + 2 * (sqrt U * sqrt W) + W" using p by simp
  also have "\<dots> = (sqrt U + sqrt W) * (sqrt U + sqrt W)"
    using U W by (simp add: algebra_simps)
  finally have "sqrt ((a + d) * (a + d) + (b + e) * (b + e) + (c + f) * (c + f))
                  \<le> sqrt ((sqrt U + sqrt W) * (sqrt U + sqrt W))"
    by (rule real_sqrt_le_mono)
  also have "\<dots> = sqrt U + sqrt W" using U W by (intro sqrt_sq_num) simp
  finally show ?thesis unfolding U_def W_def .
qed

lemma damped_bound:
  fixes x y z vx vy vz :: real
  assumes "x * x + y * y + z * z \<le> 400"
  shows "sqrt ((x - vx * 0.8) * (x - vx * 0.8) + (y - vy * 0.8) * (y - vy * 0.8)
               + (z - vz * 0.8) * (z - vz * 0.8))
           \<le> 20 + 0.8 * sqrt (vx * vx + vy * vy + vz * vz)"
proof -
  have "sqrt (x * x + y * y + z * z) \<le> sqrt 400" using assms by (rule real_sqrt_le_mono)
  moreover have "sqrt 400 = (20 :: real)" using sqrt_sq_num [of 20] by simp
  ultimately have a: "sqrt (x * x + y * y + z * z) \<le> 20" by simp
  have "(- (vx * 0.8)) * (- (vx * 0.8)) + (- (vy * 0.8)) * (- (vy * 0.8)) + (- (vz * 0.8)) * (- (vz * 0.8))
          = (0.8 * 0.8) * (vx * vx + vy * vy + vz * vz)" by (simp add: algebra_simps)
  then have "sqrt ((- (vx * 0.8)) * (- (vx * 0.8)) + (- (vy * 0.8)) * (- (vy * 0.8)) + (- (vz * 0.8)) * (- (vz * 0.8)))
          = sqrt ((0.8 * 0.8) * (vx * vx + vy * vy + vz * vz))" by simp
  also have "\<dots> = sqrt (0.8 * 0.8) * sqrt (vx * vx + vy * vy + vz * vz)" by (rule real_sqrt_mult)
  also have "sqrt (0.8 * 0.8) = (0.8 :: real)" by (rule sqrt_sq_num) simp
  finally have b: "sqrt ((- (vx * 0.8)) * (- (vx * 0.8)) + (- (vy * 0.8)) * (- (vy * 0.8)) + (- (vz * 0.8)) * (- (vz * 0.8)))
          = 0.8 * sqrt (vx * vx + vy * vy + vz * vz)" .
  have "sqrt ((x + - (vx * 0.8)) * (x + - (vx * 0.8)) + (y + - (vy * 0.8)) * (y + - (vy * 0.8))
               + (z + - (vz * 0.8)) * (z + - (vz * 0.8)))
         \<le> sqrt (x * x + y * y + z * z) + sqrt ((- (vx * 0.8)) * (- (vx * 0.8)) + (- (vy * 0.8)) * (- (vy * 0.8)) + (- (vz * 0.8)) * (- (vz * 0.8)))"
    by (rule triangle3)
  then show ?thesis using a unfolding b by simp
qed

text \<open>
  C7, as the code has it. For a kite with finite velocity \<open>v\<close>, \<open>getTetherForces\<close>
  returns a finite force \<open>F\<close>. When it wrote no diagnostic, \<open>F\<close> is the line force limited
  to \<open>maxForce = 20\<close> minus the damping \<open>0.8 \<times> v\<close>: it is \<open>F + 0.8 \<times> v\<close>, the force before
  the damping was subtracted, whose magnitude is at most 20. When it wrote a diagnostic,
  \<open>F\<close> is zero. In both cases the magnitude of \<open>F\<close> is at most \<open>20 + 0.8 \<times> |v|\<close>.
\<close>

theorem getTetherForces_limit_then_damp:
  assumes "velocity k = \<lparr>X = Num vx, Y = Num vy, Z = Num vz\<rparr>"
  shows "\<exists>fx fy fz. snd (getTetherForces c k) = \<lparr>X = Num fx, Y = Num fy, Z = Num fz\<rparr>
           \<and> (if fst (getTetherForces c k) = []
               then (fx + 0.8 * vx) * (fx + 0.8 * vx) + (fy + 0.8 * vy) * (fy + 0.8 * vy)
                      + (fz + 0.8 * vz) * (fz + 0.8 * vz) \<le> 20 * 20
               else fx = 0 \<and> fy = 0 \<and> fz = 0)
           \<and> sqrt (fx * fx + fy * fy + fz * fz)
                 \<le> 20 + 0.8 * sqrt (vx * vx + vy * vy + vz * vz)"
proof (cases "isNaN (X (position k)) \<or> isNaN (Y (position k)) \<or> isNaN (Z (position k))")
  case True
  have "0 \<le> sqrt (vx * vx + vy * vy + vz * vz)" by simp
  then show ?thesis using True
    by (simp add: getTetherForces_def getKiteProperties_def vec0_def)
next
  case pos: False
  have v0: "0 \<le> sqrt (vx * vx + vy * vy + vz * vz)" by simp
  show ?thesis
  proof (cases "isNaN (X (lineForces c k)) \<or> isNaN (Y (lineForces c k))
                  \<or> isNaN (Z (lineForces c k))")
    case True
    then show ?thesis using pos v0
      by (simp add: getTetherForces_def getKiteProperties_def vec0_def Let_def)
  next
    case False
    then obtain x y z where lf: "lineForces c k = \<lparr>X = Num x, Y = Num y, Z = Num z\<rparr>"
      by (rule num_cases3)
    obtain x' y' z' where
      lim: "limitForce \<lparr>X = Num x, Y = Num y, Z = Num z\<rparr>
              = \<lparr>X = Num x', Y = Num y', Z = Num z'\<rparr>"
      and b: "x' * x' + y' * y' + z' * z' \<le> 400"
      using limitForce_bound [of x y z] by blast
    have g: "getTetherForces c k =
               ([], \<lparr>X = Num (x' - vx * 0.8), Y = Num (y' - vy * 0.8),
                      Z = Num (z' - vz * 0.8)\<rparr>)"
      using pos lf lim assms
      by (simp add: getTetherForces_def getKiteProperties_def Let_def)
    have "(x' - vx * 0.8 + 0.8 * vx) * (x' - vx * 0.8 + 0.8 * vx)
            + (y' - vy * 0.8 + 0.8 * vy) * (y' - vy * 0.8 + 0.8 * vy)
            + (z' - vz * 0.8 + 0.8 * vz) * (z' - vz * 0.8 + 0.8 * vz) \<le> 20 * 20"
      using b by simp
    then show ?thesis unfolding g using damped_bound [OF b, of vx vy vz]
      by (intro exI [of _ "x' - vx * 0.8"] exI [of _ "y' - vy * 0.8"]
          exI [of _ "z' - vz * 0.8"]) simp
  qed
qed

text \<open>
  A kite far downwind of the pilot, 1 m above the ground and moving away at the
  maximum speed of 5 m/s, with the default tether configuration: both lines are stretched
  to 535.5 m, 21 times their effective length of 25.5 m.
\<close>

lemma powr_32: "(32 :: real) powr 0.8 = 16"
proof -
  have "(32 :: real) = 2 powr 5" by simp
  then have "(32 :: real) powr 0.8 = (2 powr 5) powr 0.8" by simp
  also have "\<dots> = 2 powr (5 * 0.8)" by (rule powr_powr)
  also have "\<dots> = 2 powr 4" by simp
  also have "\<dots> = 16" by simp
  finally show ?thesis .
qed

lemma far_kite_tensions:
  "calculateTetherForces tetherConfig
     (kiteProperties\<lparr>position := \<lparr>X = Num 0, Y = Num 1, Z = Num (- 545.5)\<rparr>,
                       velocity := \<lparr>X = Num 0, Y = Num 0, Z = Num (- 5)\<rparr>\<rparr>)
   = (Num 33.6, Num 33.6, Num 535.5, Num 535.5)"
proof -
  have "sqrt (535.5 * 535.5) = (535.5 :: real)" by (rule sqrt_sq_num) simp
  then have s: "sqrt (1147041 / 4) = (1071 / 2 :: real)" by simp
  show ?thesis
    by (simp add: calculateTetherForces_def calculateDistance_def calculateLineTension_def
        tetherConfig_def kiteProperties_def getKiteProperties_def leftAttachPoint_def
        rightAttachPoint_def Let_def s)
qed

lemma far_kite_lineForces:
  defines "m \<equiv> sqrt (1144901 / 4 :: real)"
  defines "S \<equiv> (168 / 5 :: real) powr (4 / 5) * 5"
  shows "lineForces tetherConfig
     (kiteProperties\<lparr>position := \<lparr>X = Num 0, Y = Num 1, Z = Num (- 545.5)\<rparr>,
                       velocity := \<lparr>X = Num 0, Y = Num 0, Z = Num (- 5)\<rparr>\<rparr>)
   = \<lparr>X = Num 0, Y = Num 0, Z = Num (2 * (535 / m * S))\<rparr>"
proof -
  have m1: "1 < m" unfolding m_def by (rule real_less_rsqrt) simp
  then have m0: "m \<noteq> 0" "1 / 10000 < m" by simp_all
  show ?thesis
    unfolding lineForces_def far_kite_tensions
    using m1 m0
    by (simp add: tetherConfig_def kiteProperties_def getKiteProperties_def Let_def
        scaleTension_def m_def [symmetric] S_def [symmetric])
qed

lemma far_kite_force_large:
  "20 < 2 * (535 / sqrt (1144901 / 4 :: real) * ((168 / 5 :: real) powr (4 / 5) * 5))"
proof -
  define m where "m = sqrt (1144901 / 4 :: real)"
  define P where "P = (168 / 5 :: real) powr (4 / 5)"
  have m1: "0 < m" unfolding m_def by simp
  have m2: "m \<le> 536" unfolding m_def by (rule real_le_lsqrt) simp_all
  have "(32 :: real) powr 0.8 \<le> (168 / 5) powr 0.8" by (rule powr_mono2) simp_all
  then have P: "16 \<le> P" unfolding P_def powr_32 by simp
  have "535 / 536 \<le> 535 / m" by (rule divide_left_mono) (use m1 m2 in simp_all)
  then have "(535 / 536) * (16 * 5) \<le> 535 / m * (P * 5)"
    using P m1 by (intro mult_mono) simp_all
  then show ?thesis unfolding m_def P_def by simp
qed

lemma limitForce_z:
  assumes "20 < T"
  shows "limitForce \<lparr>X = Num 0, Y = Num 0, Z = Num T\<rparr> = \<lparr>X = Num 0, Y = Num 0, Z = Num 20\<rparr>"
proof -
  have T: "0 < T" using assms by simp
  have "20 * 20 < T * T" using assms by (intro mult_strict_mono) simp_all
  then have big: "400 < 0 * 0 + 0 * 0 + T * T" by simp
  have s: "sqrt (0 * 0 + 0 * 0 + T * T) = T" using T by (simp add: sqrt_sq_num)
  show ?thesis unfolding limitForce_Num using big T by (simp only: if_True s) simp
qed

lemma far_kite_getTetherForces:
  "getTetherForces tetherConfig
     (kiteProperties\<lparr>position := \<lparr>X = Num 0, Y = Num 1, Z = Num (- 545.5)\<rparr>,
                       velocity := \<lparr>X = Num 0, Y = Num 0, Z = Num (- 5)\<rparr>\<rparr>)
     = ([], \<lparr>X = Num 0, Y = Num 0, Z = Num 24\<rparr>)"
proof -
  define T where
    "T = 2 * (535 / sqrt (1144901 / 4 :: real) * ((168 / 5 :: real) powr (4 / 5) * 5))"
  have T: "20 < T" unfolding T_def by (rule far_kite_force_large)
  have lf: "lineForces tetherConfig
     (kiteProperties\<lparr>position := \<lparr>X = Num 0, Y = Num 1, Z = Num (- 545.5)\<rparr>,
                       velocity := \<lparr>X = Num 0, Y = Num 0, Z = Num (- 5)\<rparr>\<rparr>)
     = \<lparr>X = Num 0, Y = Num 0, Z = Num T\<rparr>"
    unfolding T_def by (rule far_kite_lineForces)
  have l: "limitForce \<lparr>X = Num 0, Y = Num 0, Z = Num T\<rparr>
             = \<lparr>X = Num 0, Y = Num 0, Z = Num 20\<rparr>"
    using T by (rule limitForce_z)
  show ?thesis
    unfolding getTetherForces_def lf Let_def
    by (simp add: l getKiteProperties_def kiteProperties_def)
qed

theorem getTetherForces_limit_then_damp_witness:
  "velocity (kiteProperties\<lparr>position := \<lparr>X = Num 0, Y = Num 1, Z = Num (- 545.5)\<rparr>,
                             velocity := \<lparr>X = Num 0, Y = Num 0, Z = Num (- 5)\<rparr>\<rparr>)
     = \<lparr>X = Num 0, Y = Num 0, Z = Num (- 5)\<rparr>
   \<and> fst (getTetherForces tetherConfig
        (kiteProperties\<lparr>position := \<lparr>X = Num 0, Y = Num 1, Z = Num (- 545.5)\<rparr>,
                          velocity := \<lparr>X = Num 0, Y = Num 0, Z = Num (- 5)\<rparr>\<rparr>)) = []
   \<and> (\<exists>fx fy fz. snd (getTetherForces tetherConfig
          (kiteProperties\<lparr>position := \<lparr>X = Num 0, Y = Num 1, Z = Num (- 545.5)\<rparr>,
                            velocity := \<lparr>X = Num 0, Y = Num 0, Z = Num (- 5)\<rparr>\<rparr>))
          = \<lparr>X = Num fx, Y = Num fy, Z = Num fz\<rparr>
        \<and> (fx + 0.8 * 0) * (fx + 0.8 * 0) + (fy + 0.8 * 0) * (fy + 0.8 * 0)
             + (fz + 0.8 * (- 5)) * (fz + 0.8 * (- 5)) \<le> 20 * 20)"
  using getTetherForces_limit_then_damp
    [where k = "kiteProperties\<lparr>position := \<lparr>X = Num 0, Y = Num 1, Z = Num (- 545.5)\<rparr>,
                                velocity := \<lparr>X = Num 0, Y = Num 0, Z = Num (- 5)\<rparr>\<rparr>"
       and vx = 0 and vy = 0 and vz = "- 5" and c = tetherConfig]
  unfolding far_kite_getTetherForces by simp

text \<open>
  For that kite the force returned is \<open>(0, 0, 24)\<close>: the limited line force of 20 towards
  the pilot plus 4 of damping against the motion. Its magnitude 24 is above
  \<open>maxForce = 20\<close>.
\<close>

theorem getTetherForces_exceeds_maxForce_counterexample:
  "getTetherForces tetherConfig
     (kiteProperties\<lparr>position := \<lparr>X = Num 0, Y = Num 1, Z = Num (- 545.5)\<rparr>,
                       velocity := \<lparr>X = Num 0, Y = Num 0, Z = Num (- 5)\<rparr>\<rparr>)
     = ([], \<lparr>X = Num 0, Y = Num 0, Z = Num 24\<rparr>)
   \<and> Vector3_magnitude \<lparr>X = Num 0, Y = Num 0, Z = Num 24\<rparr> = Num 24
   \<and> \<not> Num 24 \<le> Num 20"
proof -
  have "sqrt (24 * 24) = (24 :: real)" by (rule sqrt_sq_num) simp
  then have s: "sqrt 576 = (24 :: real)" by simp
  show ?thesis using far_kite_getTetherForces by (simp add: Vector3_magnitude_def s)
qed

section \<open>The differential steering term\<close>

lemma differentialTorque_same:
  "differentialTorque t t = Num 0 \<or> differentialTorque t t = NaN"
  by (cases t) (simp_all add: differentialTorque_def Let_def)

text \<open>
  Whatever the kite and the tether configuration, the two tensions used for the torque
  are equal, and the differential term is 0 (or \<open>NaN\<close>, when the tether force is).
\<close>

lemma steeringTensions_equal:
  "case steeringTensions c k of (msgs, leftTension, rightTension) \<Rightarrow>
     leftTension = rightTension
     \<and> (differentialTorque leftTension rightTension = Num 0
        \<or> differentialTorque leftTension rightTension = NaN)"
  using differentialTorque_same
  by (simp add: steeringTensions_def Let_def split: prod.splits)

lemma launch_tensions:
  "calculateTetherForces (setRightInput (Num 1) (setLeftInput (Num 0) tetherConfig))
     (snd (resetKite kiteProperties))
   = (Num 0, Num (0.05 * (sqrt 871 / 21 - 1) * (1 + (sqrt 871 / 21 - 1))),
      Num (sqrt 871), Num (sqrt 871))"
proof -
  have a: "sqrt 871 \<le> 30" by (rule real_le_lsqrt) simp_all
  have b: "21 < sqrt 871" by (rule real_less_rsqrt) simp
  have m1: "max 0 (sqrt 871 / 30 - 1) = 0" using a by simp
  have m2: "max 0 (sqrt 871 / 21 - 1) = sqrt 871 / 21 - 1" using b by simp
  show ?thesis
    by (simp add: calculateTetherForces_def calculateDistance_def calculateLineTension_def
        setRightInput_def setLeftInput_def tetherConfig_def resetKite_def kiteProperties_def
        getKiteProperties_def leftAttachPoint_def rightAttachPoint_def Let_def Math_PI_def
        sin_30 cos_30 m1 m2)
qed

lemma Math_sqrt_sumsq:
  "Math_sqrt (Num (a * a + b * b + c * c)) = Num (sqrt (a * a + b * b + c * c))"
proof -
  have "0 \<le> a * a + b * b + c * c" by (intro add_nonneg_nonneg) simp_all
  then have "\<not> a * a + b * b + c * c < 0" by linarith
  then show ?thesis by simp
qed

lemma lineForces_Num:
  assumes "position k = \<lparr>X = Num px, Y = Num py, Z = Num pz\<rparr>"
    and "connectionPoint k = \<lparr>X = Num bx, Y = Num by, Z = Num bz\<rparr>"
    and "operatorPosition c = \<lparr>X = Num ox, Y = Num oy, Z = Num oz\<rparr>"
    and "calculateTetherForces c k = (Num lt, Num rt, dl, dr)"
    and "0 \<le> lt" and "0 \<le> rt"
  shows "\<exists>x y z. lineForces c k = \<lparr>X = Num x, Y = Num y, Z = Num z\<rparr>"
  using assms(5,6)
  by (simp add: lineForces_def assms(1-4) getKiteProperties_def Let_def scaleTension_def
      Math_sqrt_sumsq not_less)

lemma getTetherForces_finite:
  assumes "position k = \<lparr>X = Num px, Y = Num py, Z = Num pz\<rparr>"
    and "connectionPoint k = \<lparr>X = Num bx, Y = Num by, Z = Num bz\<rparr>"
    and "operatorPosition c = \<lparr>X = Num ox, Y = Num oy, Z = Num oz\<rparr>"
    and "calculateTetherForces c k = (Num lt, Num rt, dl, dr)"
    and "0 \<le> lt" and "0 \<le> rt"
    and "velocity k = \<lparr>X = Num vx, Y = Num vy, Z = Num vz\<rparr>"
  shows "\<exists>fx fy fz. getTetherForces c k = ([], \<lparr>X = Num fx, Y = Num fy, Z = Num fz\<rparr>)"
proof -
  obtain x y z where lf: "lineForces c k = \<lparr>X = Num x, Y = Num y, Z = Num z\<rparr>"
    using lineForces_Num [OF assms(1-6)] by blast
  obtain x' y' z' where
    lim: "limitForce \<lparr>X = Num x, Y = Num y, Z = Num z\<rparr>
            = \<lparr>X = Num x', Y = Num y', Z = Num z'\<rparr>"
    using limitForce_bound [of x y z] by blast
  show ?thesis
    by (simp add: getTetherForces_def getKiteProperties_def Let_def assms(1,7) lf lim)
qed

text \<open>
  C1, at the launch pose with the left line released and the right line pulled in
  (\<open>leftInput = 0\<close>, \<open>rightInput = 1\<close>). The tether system computes a left tension of 0
  (the line is slack: \<open>\<surd>871 \<le> 30\<close>) and a positive right tension. The two tensions that
  \<open>calculateAndApplyTorque\<close> uses are nevertheless equal, and the differential term
  \<open>(rightTension - leftTension) \<times> 0.5\<close> it adds to the yaw torque is 0.
\<close>

theorem differential_term_vanishes_at_launch:
  "calculateTetherForces (setRightInput (Num 1) (setLeftInput (Num 0) tetherConfig))
     (snd (resetKite kiteProperties))
   = (Num 0, Num (0.05 * (sqrt 871 / 21 - 1) * (1 + (sqrt 871 / 21 - 1))),
      Num (sqrt 871), Num (sqrt 871))
   \<and> 0 < 0.05 * (sqrt 871 / 21 - 1) * (1 + (sqrt 871 / 21 - 1))
   \<and> (case steeringTensions (setRightInput (Num 1) (setLeftInput (Num 0) tetherConfig))
               (snd (resetKite kiteProperties)) of
         (msgs, leftTension, rightTension) \<Rightarrow>
           msgs = [] \<and> leftTension = rightTension
           \<and> differentialTorque leftTension rightTension = Num 0)"
proof -
  let ?c = "setRightInput (Num 1) (setLeftInput (Num 0) tetherConfig)"
  let ?k = "snd (resetKite kiteProperties)"
  let ?R = "0.05 * (sqrt 871 / 21 - 1) * (1 + (sqrt 871 / 21 - 1))"
  have b: "21 < sqrt 871" by (rule real_less_rsqrt) simp
  then have s: "0 < sqrt 871 / 21 - 1" by simp
  then have R: "0 < ?R" by (intro mult_pos_pos) simp_all
  have p: "position ?k = \<lparr>X = Num 0, Y = Num 15, Z = Num (- 10 - 15 * sqrt 3)\<rparr>"
    by (simp add: resetKite_def Let_def Math_PI_def sin_30 cos_30)
  have cp: "connectionPoint ?k = \<lparr>X = Num 0, Y = Num 0, Z = Num 0.5\<rparr>"
    by (simp add: resetKite_def Let_def kiteProperties_def)
  have v: "velocity ?k = \<lparr>X = Num 0, Y = Num 0, Z = Num 0\<rparr>"
    by (simp add: resetKite_def Let_def vec0_def)
  have op: "operatorPosition ?c = \<lparr>X = Num 0, Y = Num 0, Z = Num (- 10)\<rparr>"
    by (simp add: setRightInput_def setLeftInput_def tetherConfig_def)
  obtain fx fy fz where
    g: "getTetherForces ?c ?k = ([], \<lparr>X = Num fx, Y = Num fy, Z = Num fz\<rparr>)"
    using getTetherForces_finite [OF p cp op launch_tensions _ _ v] R by auto
  have "steeringTensions ?c ?k = ([], Num (fx * 0.5), Num (fx * 0.5))"
    by (simp add: steeringTensions_def g)
  then show ?thesis using launch_tensions R
    by (simp add: differentialTorque_def Let_def)
qed

end
